theory Spec2Isabelle
  imports Main
begin

section \<open>Guideline documents and the fetcher (server-with-caching.js)\<close>

text \<open>
  JavaScript objects are records whose optional keys are \<open>option\<close> fields; a key that
  is absent or \<open>undefined\<close> is \<open>None\<close>. Times are milliseconds since the epoch, as
  \<open>Date.now()\<close> returns them; \<open>new Date().toISOString()\<close> is kept as the instant it
  prints. A rejected promise or a thrown exception is the \<open>Inl\<close> of a sum.
\<close>

definition truthy :: "string option \<Rightarrow> bool" where
  "truthy s = (case s of None \<Rightarrow> False | Some t \<Rightarrow> t \<noteq> [])"

text \<open>\<open>s || d\<close> for a string that may be absent: the empty string is falsy too.\<close>

definition or_default :: "string option \<Rightarrow> string \<Rightarrow> string" where
  "or_default s d = (case s of None \<Rightarrow> d | Some t \<Rightarrow> if t = [] then d else t)"

record guideline_section =
  section_no :: nat
  section_title :: string
  section_content :: string

text \<open>
  The object returned by \<open>fetchAppleGuidelines\<close>, held in \<open>guidelinesCache\<close>, and
  spread into the replies of \<open>getCachedGuidelines\<close>, which add \<open>cached\<close>,
  \<open>cacheAge\<close> (here the number of minutes, without the suffix " minutes ago"),
  \<open>stale\<close> and \<open>error\<close>.
\<close>

record guidelines =
  lastUpdated :: int
  url :: string
  sections :: "guideline_section list"
  error :: "string option"
  cached :: "bool option"
  cacheAge :: "int option"
  stale :: "bool option"

definition guidelines_url :: string where
  "guidelines_url = ''https://developer.apple.com/app-store/review/guidelines/''"

definition fallbackGuidelines :: "guideline_section list" where
  "fallbackGuidelines =
    [\<lparr>section_no = 1, section_title = ''Safety'',
      section_content = ''Apps must be safe for users. Any content that is offensive, insensitive, upsetting, or is intended to disgust users will be rejected.''\<rparr>,
     \<lparr>section_no = 2, section_title = ''Performance'',
      section_content = ''Apps should include features, content, and UI that elevate them beyond a repackaged website. Apps should use APIs and frameworks for their intended purposes and indicate that integration in their app description.''\<rparr>,
     \<lparr>section_no = 3, section_title = ''Business'',
      section_content = ''There are many ways to monetize your app on the App Store. If your business model isn't obvious, make sure to explain in its metadata and App Review notes.''\<rparr>,
     \<lparr>section_no = 4, section_title = ''Design'',
      section_content = ''Apple customers place a high value on products that are simple, refined, innovative, and easy to use. Keep these principles in mind as you work on your app's design.''\<rparr>,
     \<lparr>section_no = 5, section_title = ''Legal'',
      section_content = ''Apps must comply with all legal requirements in any location where you make them available. It is your responsibility to understand and make sure your app conforms with all local laws.''\<rparr>]"

text \<open>
  What the \<open>try\<close> block of \<open>fetchAppleGuidelines\<close> meets: either \<open>axios.get\<close> or
  \<open>cheerio.load\<close> throws (network error, timeout after 10000 ms, error status, a
  body cheerio cannot load), or the page is loaded and \<open>$('article section')\<close> selects
  a sequence of sections, each giving the trimmed text of its first \<open>h2\<close> and of its
  first \<open>p\<close> (both empty for a body that is not the expected HTML).
\<close>

datatype fetch_outcome =
  Threw string
| Scraped "(string \<times> string) list"

text \<open>The callback of \<open>.each((i, section) => ...)\<close>, from index \<open>i\<close> on.\<close>

fun scrape :: "nat \<Rightarrow> (string \<times> string) list \<Rightarrow> guideline_section list" where
  "scrape i [] = []"
| "scrape i ((t, c) # rest) =
     (if t \<noteq> [] \<and> c \<noteq> []
      then \<lparr>section_no = i + 1, section_title = t, section_content = c\<rparr> # scrape (i + 1) rest
      else scrape (i + 1) rest)"

text \<open>The body of the \<open>try\<close> block; \<open>Inl\<close> is the exception it throws.\<close>

definition fetch_try :: "int \<Rightarrow> fetch_outcome \<Rightarrow> string + guidelines" where
  "fetch_try t outcome =
     (case outcome of
        Threw msg \<Rightarrow> Inl msg
      | Scraped secs \<Rightarrow>
          (let gs = scrape 0 secs
           in Inr \<lparr>lastUpdated = t, url = guidelines_url,
                   sections = (if length gs > 0 then gs else fallbackGuidelines),
                   error = None, cached = None, cacheAge = None, stale = None\<rparr>))"

text \<open>\<open>try { ... } catch (error) { ... return fallback document }\<close>.\<close>

definition fetchAppleGuidelines :: "int \<Rightarrow> fetch_outcome \<Rightarrow> string + guidelines" where
  "fetchAppleGuidelines t outcome =
     (case fetch_try t outcome of
        Inr doc \<Rightarrow> Inr doc
      | Inl msg \<Rightarrow>
          Inr \<lparr>lastUpdated = t, url = guidelines_url, sections = fallbackGuidelines,
               error = Some ''Failed to fetch live guidelines, using fallback'',
               cached = None, cacheAge = None, stale = None\<rparr>)"

section \<open>The guideline cache\<close>

record cache_state =
  guidelinesCache :: "guidelines option"
  cacheTimestamp :: "int option"

definition initial_cache :: cache_state where
  "initial_cache = \<lparr>guidelinesCache = None, cacheTimestamp = None\<rparr>"

definition CACHE_DURATION :: int where
  "CACHE_DURATION = 24 * 60 * 60 * 1000"

text \<open>
  \<open>getCachedGuidelines\<close> up to its \<open>await\<close>: it reads the clock once (\<open>now\<close>) and
  answers from the cache when
  \<open>guidelinesCache && cacheTimestamp && (now - cacheTimestamp < CACHE_DURATION)\<close>
  (an object is truthy, a number is truthy unless it is 0); otherwise it goes on to
  fetch. \<open>Math.floor(x / 1000 / 60)\<close> is the floor of \<open>x / 60000\<close>.
\<close>

definition get_fresh_reply :: "cache_state \<Rightarrow> int \<Rightarrow> guidelines option" where
  "get_fresh_reply st now =
     (case guidelinesCache st of
        None \<Rightarrow> None
      | Some g \<Rightarrow>
          (case cacheTimestamp st of
             None \<Rightarrow> None
           | Some ts \<Rightarrow>
               if ts \<noteq> 0 \<and> now - ts < CACHE_DURATION
               then Some (g\<lparr>cached := Some True,
                             cacheAge := Some ((now - ts) div 1000 div 60)\<rparr>)
               else None))"

text \<open>
  \<open>getCachedGuidelines\<close> after its \<open>await\<close>: \<open>fetched\<close> is what
  \<open>fetchAppleGuidelines()\<close> settled to, \<open>now\<close> the clock reading taken before the
  fetch started. The state is the one found when the fetch settles.
\<close>

definition get_resume ::
  "cache_state \<Rightarrow> int \<Rightarrow> string + guidelines \<Rightarrow> (string + guidelines) \<times> cache_state" where
  "get_resume st now fetched =
     (case fetched of
        Inr doc \<Rightarrow> (Inr doc, st\<lparr>guidelinesCache := Some doc, cacheTimestamp := Some now\<rparr>)
      | Inl err \<Rightarrow>
          (case guidelinesCache st of
             Some g \<Rightarrow>
               (Inr (g\<lparr>cached := Some True, stale := Some True,
                       error := Some ''Failed to fetch fresh guidelines, serving stale cache''\<rparr>), st)
           | None \<Rightarrow> (Inl err, st)))"

text \<open>
  One call of \<open>getCachedGuidelines\<close> that runs with no other request in between:
  \<open>now\<close> is \<open>Date.now()\<close> at entry, \<open>tf\<close> the clock when the fetcher builds its
  document, \<open>outcome\<close> what the outbound request meets.
\<close>

definition getCachedGuidelines ::
  "cache_state \<Rightarrow> int \<Rightarrow> int \<Rightarrow> fetch_outcome \<Rightarrow> (string + guidelines) \<times> cache_state" where
  "getCachedGuidelines st now tf outcome =
     (case get_fresh_reply st now of
        Some reply \<Rightarrow> (Inr reply, st)
      | None \<Rightarrow> get_resume st now (fetchAppleGuidelines tf outcome))"

section \<open>HTTP handlers\<close>

datatype 'a http_response =
  Status200 'a
| Status400 string
| Status500 string "string option"

text \<open>
  \<open>POST /api/guidelines/refresh\<close>: \<open>tstore\<close> is the \<open>Date.now()\<close> read after the
  fetch has settled. The reply spreads the new cache entry beside the message
  "Guidelines refreshed".
\<close>

definition refresh_handler ::
  "cache_state \<Rightarrow> int \<Rightarrow> int \<Rightarrow> fetch_outcome \<Rightarrow> guidelines http_response \<times> cache_state" where
  "refresh_handler st tf tstore outcome =
     (case fetchAppleGuidelines tf outcome of
        Inr doc \<Rightarrow>
          (Status200 doc, st\<lparr>guidelinesCache := Some doc, cacheTimestamp := Some tstore\<rparr>)
      | Inl err \<Rightarrow> (Status500 ''Failed to refresh guidelines'' (Some err), st))"

subsection \<open>Requests in flight\<close>

text \<open>
  An \<open>await\<close> suspends a handler while other requests run. A call of
  \<open>getCachedGuidelines\<close> that misses the cache is pending from its clock reading to the
  moment its fetch settles; the refresh handler reads nothing before its fetch, so only
  the moment its fetch settles matters. The server state is the cache and the clock
  readings \<open>now\<close> of the pending calls.
\<close>

datatype event =
  GetCalled int
| GetResumed nat int fetch_outcome
| RefreshDone int int fetch_outcome

record server =
  cache :: cache_state
  pending :: "int list"

definition initial_server :: server where
  "initial_server = \<lparr>cache = initial_cache, pending = []\<rparr>"

text \<open>
  \<open>GetCalled now\<close>: a call runs up to its \<open>await\<close> (or returns from the fresh cache).
  \<open>GetResumed k tf outcome\<close>: the fetch of the \<open>k\<close>-th pending call settles and the call
  runs to its end. \<open>RefreshDone tf tstore outcome\<close>: the fetch of a refresh settles and
  the handler stores the result with \<open>Date.now() = tstore\<close>.
\<close>

fun step :: "server \<Rightarrow> event \<Rightarrow> server" where
  "step s (GetCalled now) =
     (case get_fresh_reply (cache s) now of
        Some reply \<Rightarrow> s
      | None \<Rightarrow> s\<lparr>pending := pending s @ [now]\<rparr>)"
| "step s (GetResumed k tf outcome) =
     (if k < length (pending s)
      then s\<lparr>cache := snd (get_resume (cache s) (pending s ! k) (fetchAppleGuidelines tf outcome)),
             pending := take k (pending s) @ drop (Suc k) (pending s)\<rparr>
      else s)"
| "step s (RefreshDone tf tstore outcome) =
     s\<lparr>cache := snd (refresh_handler (cache s) tf tstore outcome)\<rparr>"

section \<open>Scanner output\<close>

text \<open>
  The objects the scanner prints and the handlers pass on. Keys the code never reads are
  kept in \<open>other_keys\<close>, so that a spread \<open>{...finding, fixSuggestion: s}\<close> is a
  record update.
\<close>

record finding =
  severity :: string
  title :: "string option"
  description :: "string option"
  guideline :: "string option"
  fixSuggestion :: "string option"
  other_keys :: "(string \<times> string) list"

text \<open>
  \<open>scanResults.aiAnalysis\<close> as the report generator can read it: \<open>recommendations\<close>,
  when present, is an array of objects. The object the analyzer resolves to, whose
  \<open>recommendations\<close> has any shape, is the record \<open>analysis_reply\<close> of the enrichment.
\<close>

record recommendation =
  rec_title :: string
  rec_description :: string

record analysis =
  ai_error :: "string option"
  riskLevel :: "string option"
  recommendations :: "recommendation list option"
  model :: "string option"
  analyzedAt :: "int option"
  analysis_other :: "(string \<times> string) list"

record summary_counts =
  status :: "string option"
  critical :: "int option"
  warnings :: "int option"
  info :: "int option"

record scan_results =
  summary :: "summary_counts option"
  findings :: "finding list option"
  aiAnalysis :: "analysis option"
  rawOutput :: "string option"
  raw_stderr :: "string option"
  raw_exitCode :: "int option"

text \<open>
  The callback of \<open>exec\<close> in \<open>runGreenlight\<close> receives \<open>(error, stdout, stderr)\<close>;
  \<open>error\<close>, when present, has a message and maybe an exit code.
\<close>

record exec_outcome =
  exec_error :: "(string \<times> int option) option"
  exec_stdout :: string
  exec_stderr :: string

record greenlight_result =
  stdout :: string
  stderr :: string
  exitCode :: int

text \<open>
  \<open>if (error && !stdout) reject({error: error.message, stderr}) else
  resolve({stdout, stderr, exitCode: error?.code || 0})\<close>.
\<close>

definition runGreenlight :: "exec_outcome \<Rightarrow> (string \<times> string) + greenlight_result" where
  "runGreenlight ex =
     (case exec_error ex of
        Some (msg, code) \<Rightarrow>
          if exec_stdout ex = [] then Inl (msg, exec_stderr ex)
          else Inr \<lparr>stdout = exec_stdout ex, stderr = exec_stderr ex,
                    exitCode = (case code of None \<Rightarrow> 0 | Some c \<Rightarrow> c)\<rparr>
      | None \<Rightarrow> Inr \<lparr>stdout = exec_stdout ex, stderr = exec_stderr ex, exitCode = 0\<rparr>)"

text \<open>
  \<open>try { scanResults = JSON.parse(result.stdout) } catch { scanResults = {rawOutput,
  stderr, exitCode} }\<close>. The built-in \<open>JSON.parse\<close> is the parameter \<open>parse\<close>: it
  gives \<open>None\<close> where \<open>JSON.parse\<close> throws, and otherwise the parsed object, read through
  the keys above. No key of the parsed object is checked or changed.
\<close>

definition parse_scan_output ::
  "(string \<Rightarrow> scan_results option) \<Rightarrow> greenlight_result \<Rightarrow> scan_results" where
  "parse_scan_output parse result =
     (case parse (stdout result) of
        Some parsed \<Rightarrow> parsed
      | None \<Rightarrow>
          \<lparr>summary = None, findings = None, aiAnalysis = None,
           rawOutput = Some (stdout result), raw_stderr = Some (stderr result),
           raw_exitCode = Some (exitCode result)\<rparr>)"

text \<open>
  How the report generator reads a scan result (pdf-generator.js):
  \<open>scanResults.summary?.status || 'UNKNOWN'\<close>, \<open>scanResults.summary?.critical || 0\<close>
  and so on, \<open>scanResults.findings || []\<close>.
\<close>

definition status_of :: "scan_results \<Rightarrow> string" where
  "status_of sr =
     (case summary sr of
        None \<Rightarrow> ''UNKNOWN''
      | Some sm \<Rightarrow> or_default (status sm) ''UNKNOWN'')"

definition count_or_zero :: "int option \<Rightarrow> int" where
  "count_or_zero c = (case c of None \<Rightarrow> 0 | Some n \<Rightarrow> n)"

definition critical_of :: "scan_results \<Rightarrow> int" where
  "critical_of sr = (case summary sr of None \<Rightarrow> 0 | Some sm \<Rightarrow> count_or_zero (critical sm))"

definition warnings_of :: "scan_results \<Rightarrow> int" where
  "warnings_of sr = (case summary sr of None \<Rightarrow> 0 | Some sm \<Rightarrow> count_or_zero (warnings sm))"

definition info_of :: "scan_results \<Rightarrow> int" where
  "info_of sr = (case summary sr of None \<Rightarrow> 0 | Some sm \<Rightarrow> count_or_zero (info sm))"

definition findings_of :: "scan_results \<Rightarrow> finding list" where
  "findings_of sr = (case findings sr of None \<Rightarrow> [] | Some fs \<Rightarrow> fs)"

text \<open>The severity tally of a list of findings.\<close>

definition tally :: "string \<Rightarrow> finding list \<Rightarrow> int" where
  "tally sev fs = int (length (filter (\<lambda>f. severity f = sev) fs))"

subsection \<open>\<open>POST /api/scan/upload\<close>\<close>

text \<open>\<open>req.file\<close>; \<open>filesize\<close> is its key \<open>size\<close>.\<close>

record uploaded_file =
  originalname :: string
  filesize :: nat

record scan_report =
  timestamp :: int
  fileName :: string
  fileSize :: nat
  results :: scan_results
  report_guidelines :: "guidelines option"

text \<open>
  The handler, without the upload path and the \<open>scanId\<close> derived from it. The reply is
  built after the scan: \<open>tstamp\<close> is its \<open>new Date()\<close>, and \<open>now\<close>, \<open>tf\<close>, \<open>outcome\<close>
  belong to the call of \<open>getCachedGuidelines\<close> inside the object literal. Every failure
  inside the \<open>try\<close> ends in status 500 "Scan failed"; the rejection value of
  \<open>runGreenlight\<close> has no \<open>message\<close>, so \<open>details\<close> is absent there.
\<close>

definition upload_handler ::
  "(string \<Rightarrow> scan_results option) \<Rightarrow> cache_state \<Rightarrow> uploaded_file option \<Rightarrow> exec_outcome \<Rightarrow>
   int \<Rightarrow> int \<Rightarrow> int \<Rightarrow> fetch_outcome \<Rightarrow> scan_report http_response \<times> cache_state" where
  "upload_handler parse st file ex tstamp now tf outcome =
     (case file of
        None \<Rightarrow> (Status400 ''No IPA file uploaded'', st)
      | Some f \<Rightarrow>
          (case runGreenlight ex of
             Inl rejection \<Rightarrow> (Status500 ''Scan failed'' None, st)
           | Inr result \<Rightarrow>
               (let scanResults = parse_scan_output parse result
                in case getCachedGuidelines st now tf outcome of
                     (Inr g, st') \<Rightarrow>
                       (Status200 \<lparr>timestamp = tstamp, fileName = originalname f,
                                   fileSize = filesize f, results = scanResults,
                                   report_guidelines = Some g\<rparr>, st')
                   | (Inl err, st') \<Rightarrow> (Status500 ''Scan failed'' (Some err), st'))))"

subsection \<open>The other scan routes\<close>

text \<open>
  \<open>POST /api/scan/url\<close>. The body's \<open>url\<close> is a string or absent (\<open>url_opt\<close>);
  \<open>!url || !url.endsWith('.ipa')\<close> answers 400. \<open>fs.mkdir\<close> is awaited before the \<open>try\<close>:
  when it rejects (\<open>made\<close> is false) the handler sends no reply, the value \<open>None\<close>.
  \<open>download\<close> is what \<open>downloadIPA\<close> and \<open>fs.stat\<close> settle to: an error message, or the
  size of the file. The reply, without its \<open>scanId\<close>, carries the guidelines like the
  one of the upload route.
\<close>

definition ends_with_ipa :: "string \<Rightarrow> bool" where
  "ends_with_ipa u = (drop (length u - 4) u = ''.ipa'')"

record url_report =
  ur_timestamp :: int
  ur_sourceUrl :: string
  ur_fileSize :: nat
  ur_results :: scan_results
  ur_guidelines :: "guidelines option"

definition url_handler ::
  "(string \<Rightarrow> scan_results option) \<Rightarrow> cache_state \<Rightarrow> string option \<Rightarrow> bool \<Rightarrow> string + nat \<Rightarrow>
   exec_outcome \<Rightarrow> int \<Rightarrow> int \<Rightarrow> int \<Rightarrow> fetch_outcome \<Rightarrow>
   url_report http_response option \<times> cache_state" where
  "url_handler parse st url_opt made download ex tstamp now tf outcome =
     (case url_opt of
        None \<Rightarrow> (Some (Status400 ''Valid .ipa URL is required''), st)
      | Some u \<Rightarrow>
          if u = [] \<or> \<not> ends_with_ipa u then (Some (Status400 ''Valid .ipa URL is required''), st)
          else if \<not> made then (None, st)
          else
            (case download of
               Inl msg \<Rightarrow> (Some (Status500 ''Scan failed'' (Some msg)), st)
             | Inr sz \<Rightarrow>
                 (case runGreenlight ex of
                    Inl rejection \<Rightarrow> (Some (Status500 ''Scan failed'' None), st)
                  | Inr result \<Rightarrow>
                      (let scanResults = parse_scan_output parse result
                       in case getCachedGuidelines st now tf outcome of
                            (Inr g, st') \<Rightarrow>
                              (Some (Status200 \<lparr>ur_timestamp = tstamp, ur_sourceUrl = u,
                                                ur_fileSize = sz, ur_results = scanResults,
                                                ur_guidelines = Some g\<rparr>), st')
                          | (Inl err, st') \<Rightarrow>
                              (Some (Status500 ''Scan failed'' (Some err)), st')))))"

text \<open>
  \<open>POST /api/scan/preflight\<close>, \<open>/api/scan/code\<close> and \<open>/api/scan/privacy\<close> take a project
  path, a string or absent (\<open>!projectPath\<close> answers 400), and reply with
  \<open>scanId: Date.now()\<close> (\<open>tid\<close>). The
  preflight reply carries the guidelines; the replies of the code scan and of the privacy
  scan have a \<open>scanType\<close> and no key \<open>guidelines\<close>, and these two handlers do not call
  \<open>getCachedGuidelines\<close>. An uploaded file only adds an argument to the preflight command.
\<close>

record project_report =
  pr_scanId :: int
  pr_timestamp :: int
  pr_projectPath :: string
  pr_scanType :: "string option"
  pr_results :: scan_results
  pr_guidelines :: "guidelines option"

definition preflight_handler ::
  "(string \<Rightarrow> scan_results option) \<Rightarrow> cache_state \<Rightarrow> string option \<Rightarrow> exec_outcome \<Rightarrow>
   int \<Rightarrow> int \<Rightarrow> int \<Rightarrow> int \<Rightarrow> fetch_outcome \<Rightarrow> project_report http_response \<times> cache_state" where
  "preflight_handler parse st projectPath ex tid tstamp now tf outcome =
     (if \<not> truthy projectPath then (Status400 ''Project path is required'', st)
      else
        (case runGreenlight ex of
           Inl rejection \<Rightarrow> (Status500 ''Preflight scan failed'' None, st)
         | Inr result \<Rightarrow>
             (let scanResults = parse_scan_output parse result
              in case getCachedGuidelines st now tf outcome of
                   (Inr g, st') \<Rightarrow>
                     (Status200 \<lparr>pr_scanId = tid, pr_timestamp = tstamp,
                                 pr_projectPath = or_default projectPath [], pr_scanType = None,
                                 pr_results = scanResults, pr_guidelines = Some g\<rparr>, st')
                 | (Inl err, st') \<Rightarrow> (Status500 ''Preflight scan failed'' (Some err), st'))))"

definition code_handler ::
  "(string \<Rightarrow> scan_results option) \<Rightarrow> string option \<Rightarrow> exec_outcome \<Rightarrow> int \<Rightarrow> int \<Rightarrow>
   project_report http_response" where
  "code_handler parse projectPath ex tid tstamp =
     (if \<not> truthy projectPath then Status400 ''Project path is required''
      else
        (case runGreenlight ex of
           Inl rejection \<Rightarrow> Status500 ''Code scan failed'' None
         | Inr result \<Rightarrow>
             Status200 \<lparr>pr_scanId = tid, pr_timestamp = tstamp,
                        pr_projectPath = or_default projectPath [], pr_scanType = Some ''code'',
                        pr_results = parse_scan_output parse result, pr_guidelines = None\<rparr>))"

definition privacy_handler ::
  "(string \<Rightarrow> scan_results option) \<Rightarrow> string option \<Rightarrow> exec_outcome \<Rightarrow> int \<Rightarrow> int \<Rightarrow>
   project_report http_response" where
  "privacy_handler parse projectPath ex tid tstamp =
     (if \<not> truthy projectPath then Status400 ''Project path is required''
      else
        (case runGreenlight ex of
           Inl rejection \<Rightarrow> Status500 ''Privacy scan failed'' None
         | Inr result \<Rightarrow>
             Status200 \<lparr>pr_scanId = tid, pr_timestamp = tstamp,
                        pr_projectPath = or_default projectPath [], pr_scanType = Some ''privacy'',
                        pr_results = parse_scan_output parse result, pr_guidelines = None\<rparr>))"

section \<open>Enrichment (ai-analyzer)\<close>

text \<open>
  \<open>getAnthropicKey\<close>: the environment variable when it is truthy, else the token of the
  profile file, else \<open>null\<close> when the file cannot be read or parsed.
\<close>

datatype auth_file =
  Unreadable string
| Profile "string option"

definition getAnthropicKey :: "string option \<Rightarrow> auth_file \<Rightarrow> string option" where
  "getAnthropicKey env file =
     (if truthy env then env
      else (case file of Unreadable msg \<Rightarrow> None | Profile token \<Rightarrow> token))"

text \<open>
  What \<open>await client.messages.create(...)\<close> settles to: a rejection (timeout,
  authentication failure, rate limit), or a message whose \<open>content\<close> is a list of blocks,
  each with or without a \<open>text\<close>.
\<close>

datatype api_outcome =
  ApiThrew string
| ApiMessage "string option list"

text \<open>
  \<open>message.content[0].text.trim()\<close> after the call: reading \<open>text\<close> of a missing
  block, or \<open>trim\<close> of a missing text, throws a TypeError. The built-in
  \<open>String.prototype.trim\<close> is the parameter \<open>trim\<close>.
\<close>

definition suggestion_text :: "(string \<Rightarrow> string) \<Rightarrow> api_outcome \<Rightarrow> string + string" where
  "suggestion_text trim r =
     (case r of
        ApiThrew msg \<Rightarrow> Inl msg
      | ApiMessage [] \<Rightarrow> Inl ''Cannot read properties of undefined (reading 'text')''
      | ApiMessage (None # rest) \<Rightarrow> Inl ''Cannot read properties of undefined (reading 'trim')''
      | ApiMessage (Some t # rest) \<Rightarrow> Inr (trim t))"

text \<open>
  The \<open>for (const finding of findings)\<close> loop of \<open>generateFixSuggestions\<close>. An element
  of the list is a finding or \<open>null\<close> (\<open>None\<close>). The prompt is built outside the inner
  \<open>try\<close>: reading \<open>finding.title\<close> of \<open>null\<close> throws out of the loop. The call and the
  push are inside the inner \<open>try\<close>, whose \<open>catch\<close> pushes the finding as it is.
  \<open>ai k f\<close> is what the \<open>k\<close>-th call of the run, made for the finding \<open>f\<close>, settles to.
\<close>

fun enhance_loop ::
  "(string \<Rightarrow> string) \<Rightarrow> (nat \<Rightarrow> finding \<Rightarrow> api_outcome) \<Rightarrow> nat \<Rightarrow>
   finding option list \<Rightarrow> finding option list \<Rightarrow> string + finding option list" where
  "enhance_loop trim ai k [] enhanced = Inr enhanced"
| "enhance_loop trim ai k (None # fs) enhanced =
     Inl ''Cannot read properties of null (reading 'title')''"
| "enhance_loop trim ai k (Some f # fs) enhanced =
     enhance_loop trim ai (k + 1) fs
       (enhanced @ [Some (case suggestion_text trim (ai k f) of
                            Inr s \<Rightarrow> f\<lparr>fixSuggestion := Some s\<rparr>
                          | Inl err \<Rightarrow> f)])"

text \<open>
  The body of the outer \<open>try\<close>, and the function with its outer \<open>catch\<close>, which returns
  the list it was given.
\<close>

definition fix_try ::
  "(string \<Rightarrow> string) \<Rightarrow> string option \<Rightarrow> (nat \<Rightarrow> finding \<Rightarrow> api_outcome) \<Rightarrow>
   finding option list \<Rightarrow> string + finding option list" where
  "fix_try trim apiKey ai fs =
     (if \<not> truthy apiKey then Inr fs else enhance_loop trim ai 0 fs [])"

definition generateFixSuggestions ::
  "(string \<Rightarrow> string) \<Rightarrow> string option \<Rightarrow> (nat \<Rightarrow> finding \<Rightarrow> api_outcome) \<Rightarrow>
   finding option list \<Rightarrow> string + finding option list" where
  "generateFixSuggestions trim apiKey ai fs =
     (case fix_try trim apiKey ai fs of
        Inr enhanced \<Rightarrow> Inr enhanced
      | Inl msg \<Rightarrow> Inr fs)"

text \<open>
  \<open>responseText.match(/\{[\s\S]*\}/)\<close>: from the first opening brace to the last
  closing brace after it, if there is one.
\<close>

definition jsonMatch :: "string \<Rightarrow> string option" where
  "jsonMatch text =
     (case dropWhile (\<lambda>c. c \<noteq> CHR ''{'') text of
        [] \<Rightarrow> None
      | b # rest \<Rightarrow>
          (case dropWhile (\<lambda>c. c \<noteq> CHR ''}'') (rev rest) of
             [] \<Rightarrow> None
           | r \<Rightarrow> Some (b # rev r)))"

text \<open>
  The object \<open>analyzeWithAI\<close> resolves to. On success it is whatever object the reply
  holds, so the value of its key \<open>recommendations\<close> has any shape: an array, whose
  elements are \<open>null\<close> (\<open>None\<close>) or values of which \<open>title\<close> and \<open>description\<close> can be
  read; another truthy value (a string, a number, an object); or a falsy one.
\<close>

datatype recs_json =
  RecsArray "recommendation option list"
| RecsTruthy
| RecsFalsy

record analysis_reply =
  reply_error :: "string option"
  reply_riskLevel :: "string option"
  reply_recommendations :: "recs_json option"
  reply_model :: "string option"
  reply_analyzedAt :: "int option"
  reply_other :: "(string \<times> string) list"

definition analysis_failed :: "string \<Rightarrow> string \<Rightarrow> analysis_reply" where
  "analysis_failed msg risk =
     \<lparr>reply_error = Some msg, reply_riskLevel = Some risk,
      reply_recommendations = Some (RecsArray []),
      reply_model = None, reply_analyzedAt = None, reply_other = []\<rparr>"

text \<open>
  The body of the \<open>try\<close> of \<open>analyzeWithAI\<close>. \<open>parse_analysis\<close> is \<open>JSON.parse\<close> on the
  matched text (\<open>Inl\<close> its SyntaxError), \<open>t\<close> the clock at \<open>analyzedAt\<close>.
\<close>

definition analyze_try ::
  "string option \<Rightarrow> api_outcome \<Rightarrow> (string \<Rightarrow> string + analysis_reply) \<Rightarrow> int \<Rightarrow>
   string + analysis_reply" where
  "analyze_try apiKey reply parse_analysis t =
     (if \<not> truthy apiKey
      then Inr (analysis_failed ''No Anthropic API key found'' ''Unable to assess (no AI available)'')
      else
        (case reply of
           ApiThrew msg \<Rightarrow> Inl msg
         | ApiMessage [] \<Rightarrow> Inl ''Cannot read properties of undefined (reading 'text')''
         | ApiMessage (None # rest) \<Rightarrow> Inl ''Cannot read properties of undefined (reading 'match')''
         | ApiMessage (Some responseText # rest) \<Rightarrow>
             (case jsonMatch responseText of
                Some js \<Rightarrow>
                  (case parse_analysis js of
                     Inl msg \<Rightarrow> Inl msg
                   | Inr a \<Rightarrow>
                       Inr (a\<lparr>reply_model := Some ''claude-sonnet-4'', reply_analyzedAt := Some t\<rparr>))
              | None \<Rightarrow> Inr (analysis_failed ''Failed to parse AI response'' ''Unable to assess''))))"

definition analyzeWithAI ::
  "string option \<Rightarrow> api_outcome \<Rightarrow> (string \<Rightarrow> string + analysis_reply) \<Rightarrow> int \<Rightarrow>
   string + analysis_reply" where
  "analyzeWithAI apiKey reply parse_analysis t =
     (case analyze_try apiKey reply parse_analysis t of
        Inr a \<Rightarrow> Inr a
      | Inl msg \<Rightarrow> Inr (analysis_failed msg ''Unable to assess (AI error)''))"

section \<open>The paginated report (pdf-generator.js)\<close>

text \<open>
  \<open>generateCompliancePDF\<close> draws at explicit coordinates and keeps its own cursor
  \<open>y\<close>; a page ends where the code calls \<open>doc.addPage()\<close>. The model records, for every
  block the code draws, the cursor at which it starts and the amount by which the code
  advances the cursor for it. The text measure \<open>doc.heightOfString(text, {width})\<close> of
  the PDF library is the parameter \<open>hos\<close>, applied to the font size in force, the text
  and the width.
\<close>

datatype label =
  Literal string
| FindingNumber nat

datatype block =
  HeaderBlock
| SummaryBlock string string int int int "string option"
| FindingsHeading
| FindingBlock string string label string "string option" "string option"
| RecommendationsHeading
| RecommendationBlock nat string string
| FooterBlock

record placed =
  pblock :: block
  py :: int
  ph :: int

type_synonym layout = "placed list list \<times> placed list \<times> int"

definition statusColor :: "string \<Rightarrow> string" where
  "statusColor st =
     (if st = ''GREENLIT'' then ''#10B981''
      else if st = ''WARNING'' then ''#F59E0B'' else ''#EF4444'')"

text \<open>\<open>severityColors[finding.severity] || '#6B7280'\<close>.\<close>

definition severityColor :: "string \<Rightarrow> string" where
  "severityColor sev =
     (if sev = ''CRITICAL'' then ''#EF4444''
      else if sev = ''WARNING'' then ''#F59E0B''
      else if sev = ''INFO'' then ''#3B82F6'' else ''#6B7280'')"

text \<open>\<open>if (y > limit) { doc.addPage(); y = 50; }\<close>.\<close>

fun new_page_if :: "int \<Rightarrow> layout \<Rightarrow> layout" where
  "new_page_if limit (pages, cur, y) =
     (if y > limit then (pages @ [cur], [], 50) else (pages, cur, y))"

text \<open>Drawing a block at the cursor and advancing the cursor by \<open>h\<close>.\<close>

fun put :: "block \<Rightarrow> int \<Rightarrow> layout \<Rightarrow> layout" where
  "put b h (pages, cur, y) = (pages, cur @ [\<lparr>pblock = b, py = y, ph = h\<rparr>], y + h)"

text \<open>
  One finding: the badge and title (\<open>y += 30\<close>), the description
  (\<open>y += heightOfString(...) + 10\<close>), the guideline line when there is one
  (\<open>y += 15\<close>), the suggested fix when there is one
  (\<open>y += 12\<close>, \<open>y += heightOfString(...) + 15\<close>) and the separator (\<open>y += 20\<close>).
\<close>

definition finding_block :: "nat \<Rightarrow> finding \<Rightarrow> block" where
  "finding_block index f =
     FindingBlock (severityColor (severity f)) (severity f)
       (if truthy (title f) then Literal (or_default (title f) []) else FindingNumber (index + 1))
       (or_default (description f) ''No description'')
       (if truthy (guideline f) then guideline f else None)
       (if truthy (fixSuggestion f) then fixSuggestion f else None)"

definition finding_height :: "(nat \<Rightarrow> string \<Rightarrow> int \<Rightarrow> int) \<Rightarrow> finding \<Rightarrow> int" where
  "finding_height hos f =
     30 + (hos 10 (or_default (description f) ''No description'') 512 + 10)
        + (if truthy (guideline f) then 15 else 0)
        + (if truthy (fixSuggestion f) then 12 + (hos 9 (or_default (fixSuggestion f) []) 497 + 15) else 0)
        + 20"

text \<open>\<open>findings.forEach((finding, index) => { if (y > 700) {...} ... })\<close>.\<close>

fun findings_loop ::
  "(nat \<Rightarrow> string \<Rightarrow> int \<Rightarrow> int) \<Rightarrow> nat \<Rightarrow> finding list \<Rightarrow> layout \<Rightarrow> layout" where
  "findings_loop hos index [] lay = lay"
| "findings_loop hos index (f # fs) lay =
     findings_loop hos (index + 1) fs
       (put (finding_block index f) (finding_height hos f) (new_page_if 700 lay))"

text \<open>\<open>recommendations.forEach((rec, index) => { if (y > 700) {...} ... })\<close>.\<close>

definition recommendation_height :: "(nat \<Rightarrow> string \<Rightarrow> int \<Rightarrow> int) \<Rightarrow> recommendation \<Rightarrow> int" where
  "recommendation_height hos r = 18 + (hos 10 (rec_description r) 497 + 20)"

fun recommendations_loop ::
  "(nat \<Rightarrow> string \<Rightarrow> int \<Rightarrow> int) \<Rightarrow> nat \<Rightarrow> recommendation list \<Rightarrow> layout \<Rightarrow> layout" where
  "recommendations_loop hos index [] lay = lay"
| "recommendations_loop hos index (r # rs) lay =
     recommendations_loop hos (index + 1) rs
       (put (RecommendationBlock (index + 1) (rec_title r) (rec_description r))
            (recommendation_height hos r) (new_page_if 700 lay))"

text \<open>
  \<open>scanResults.aiAnalysis?.riskLevel\<close> and \<open>scanResults.aiAnalysis?.recommendations\<close>;
  an array is truthy even when it is empty.
\<close>

definition risk_of :: "scan_results \<Rightarrow> string option" where
  "risk_of sr =
     (case aiAnalysis sr of
        None \<Rightarrow> None
      | Some a \<Rightarrow> (if truthy (riskLevel a) then riskLevel a else None))"

definition recommendations_of :: "scan_results \<Rightarrow> recommendation list option" where
  "recommendations_of sr = (case aiAnalysis sr of None \<Rightarrow> None | Some a \<Rightarrow> recommendations a)"

definition summary_block :: "scan_results \<Rightarrow> block" where
  "summary_block sr =
     SummaryBlock (status_of sr) (statusColor (status_of sr))
       (critical_of sr) (warnings_of sr) (info_of sr) (risk_of sr)"

text \<open>
  The first page up to the findings: the header (cursor from the top margin 50 to
  \<open>let y = 175\<close>), the executive summary (\<open>y += 30\<close>, \<open>y += 80\<close>, \<open>y += 30\<close> and, with a
  risk level, \<open>y += 20\<close> and \<open>y += 25\<close>) and the heading "Detailed Findings"
  (\<open>y += 30\<close>).
\<close>

definition first_page :: "scan_results \<Rightarrow> layout" where
  "first_page sr =
     put FindingsHeading 30
       (put (summary_block sr) (30 + 80 + 30 + (if risk_of sr = None then 0 else 20 + 25))
          (put HeaderBlock 125 ([], [], 50)))"

text \<open>The section "AI-Powered Recommendations": its heading moves to a new page past 650.\<close>

definition recommendations_part ::
  "(nat \<Rightarrow> string \<Rightarrow> int \<Rightarrow> int) \<Rightarrow> scan_results \<Rightarrow> layout \<Rightarrow> layout" where
  "recommendations_part hos sr lay =
     (case recommendations_of sr of
        None \<Rightarrow> lay
      | Some recs \<Rightarrow>
          recommendations_loop hos 0 recs (put RecommendationsHeading 30 (new_page_if 650 lay)))"

text \<open>
  The footer: \<open>doc.addPage(); y = 350;\<close> and three lines drawn from there; the cursor is
  not advanced any more.
\<close>

fun footer_part :: "layout \<Rightarrow> placed list list" where
  "footer_part (pages, cur, y) = pages @ [cur] @ [[\<lparr>pblock = FooterBlock, py = 350, ph = 0\<rparr>]]"

definition generateCompliancePDF ::
  "(nat \<Rightarrow> string \<Rightarrow> int \<Rightarrow> int) \<Rightarrow> scan_results \<Rightarrow> placed list list" where
  "generateCompliancePDF hos sr =
     footer_part
       (recommendations_part hos sr
          (findings_loop hos 0 (findings_of sr) (first_page sr)))"

section \<open>The enhanced scan (\<open>POST /api/scan/enhanced\<close>)\<close>

text \<open>
  The report generator reads \<open>scanResults.aiAnalysis?.recommendations\<close> and, when it is
  truthy, calls its \<open>forEach\<close> and reads \<open>rec.title\<close> and \<open>rec.description\<close> of every
  element. On the analyzer's reply this throws when the value is truthy and not an array,
  and when an element is \<open>null\<close>; the exception rejects the promise of
  \<open>generateCompliancePDF\<close>. Otherwise the reply is read as the analysis below.
\<close>

fun present :: "'a option list \<Rightarrow> 'a list" where
  "present [] = []"
| "present (None # xs) = present xs"
| "present (Some x # xs) = x # present xs"

definition analysis_read :: "analysis_reply \<Rightarrow> recommendation list option \<Rightarrow> analysis" where
  "analysis_read a recs =
     \<lparr>ai_error = reply_error a, riskLevel = reply_riskLevel a, recommendations = recs,
      model = reply_model a, analyzedAt = reply_analyzedAt a, analysis_other = reply_other a\<rparr>"

definition analysis_for_report :: "analysis_reply \<Rightarrow> string + analysis" where
  "analysis_for_report a =
     (case reply_recommendations a of
        None \<Rightarrow> Inr (analysis_read a None)
      | Some RecsFalsy \<Rightarrow> Inr (analysis_read a None)
      | Some RecsTruthy \<Rightarrow>
          Inl ''scanResults.aiAnalysis.recommendations.forEach is not a function''
      | Some (RecsArray es) \<Rightarrow>
          if list_all (\<lambda>e. e \<noteq> None) es then Inr (analysis_read a (Some (present es)))
          else Inl ''Cannot read properties of null (reading 'title')'')"

text \<open>
  What the handler has when its \<open>try\<close> runs to the end: the scan results (all keys but
  \<open>aiAnalysis\<close>), the analysis stored under \<open>aiAnalysis\<close>, and the pages of the report.
\<close>

record enhanced_results =
  er_results :: scan_results
  er_analysis :: analysis_reply
  er_pages :: "placed list list"

text \<open>
  Steps 2 to 4 of the handler, inside its \<open>try\<close>, from the scan results of step 1:
  \<open>scanResults.aiAnalysis = await analyzeWithAI(scanResults)\<close>; when there are findings
  and the analysis has no \<open>error\<close>,
  \<open>scanResults.findings = await generateFixSuggestions(scanResults.findings)\<close>; then
  \<open>await generateCompliancePDF(scanResults, pdfPath)\<close>. \<open>Inl\<close> is the exception that
  leaves the \<open>try\<close>. Writing the file is taken to succeed.
\<close>

definition enrich_findings ::
  "(string \<Rightarrow> string) \<Rightarrow> string option \<Rightarrow> (nat \<Rightarrow> finding \<Rightarrow> api_outcome) \<Rightarrow>
   analysis_reply \<Rightarrow> scan_results \<Rightarrow> string + scan_results" where
  "enrich_findings trim apiKey ai a sr =
     (case findings sr of
        None \<Rightarrow> Inr sr
      | Some fs \<Rightarrow>
          if length fs > 0 \<and> \<not> truthy (reply_error a)
          then (case generateFixSuggestions trim apiKey ai (map Some fs) of
                  Inl msg \<Rightarrow> Inl msg
                | Inr fs' \<Rightarrow> Inr (sr\<lparr>findings := Some (present fs')\<rparr>))
          else Inr sr)"

definition enrich ::
  "(string \<Rightarrow> string) \<Rightarrow> string option \<Rightarrow> auth_file \<Rightarrow> api_outcome \<Rightarrow>
   (string \<Rightarrow> string + analysis_reply) \<Rightarrow> int \<Rightarrow> (nat \<Rightarrow> finding \<Rightarrow> api_outcome) \<Rightarrow>
   (nat \<Rightarrow> string \<Rightarrow> int \<Rightarrow> int) \<Rightarrow> scan_results \<Rightarrow> string + enhanced_results" where
  "enrich trim env file reply parse_analysis t ai hos sr =
     (case analyzeWithAI (getAnthropicKey env file) reply parse_analysis t of
        Inl msg \<Rightarrow> Inl msg
      | Inr a \<Rightarrow>
          (case enrich_findings trim (getAnthropicKey env file) ai a sr of
             Inl msg \<Rightarrow> Inl msg
           | Inr sr1 \<Rightarrow>
               (case analysis_for_report a of
                  Inl msg \<Rightarrow> Inl msg
                | Inr read \<Rightarrow>
                    Inr \<lparr>er_results = sr1\<lparr>aiAnalysis := None\<rparr>, er_analysis = a,
                         er_pages = generateCompliancePDF hos (sr1\<lparr>aiAnalysis := Some read\<rparr>)\<rparr>)))"

text \<open>
  The reply of the handler: the \<open>catch\<close> answers 500 "Enhanced scan failed". After step 4
  the handler removes the upload and builds the download address from the \<open>Host\<close> header
  of the request, which is taken to be present.
\<close>

definition enhanced_reply :: "string + enhanced_results \<Rightarrow> enhanced_results http_response" where
  "enhanced_reply r =
     (case r of
        Inl msg \<Rightarrow> Status500 ''Enhanced scan failed'' (Some msg)
      | Inr done \<Rightarrow> Status200 done)"

section \<open>Auxiliary definitions for the properties\<close>

subsection \<open>Fetched documents\<close>

text \<open>The two documents the fetcher can build at time \<open>t\<close>.\<close>

definition fallback_document :: "int \<Rightarrow> guidelines" where
  "fallback_document t =
     \<lparr>lastUpdated = t, url = guidelines_url, sections = fallbackGuidelines,
      error = Some ''Failed to fetch live guidelines, using fallback'',
      cached = None, cacheAge = None, stale = None\<rparr>"

definition scraped_document :: "int \<Rightarrow> (string \<times> string) list \<Rightarrow> guidelines" where
  "scraped_document t secs =
     \<lparr>lastUpdated = t, url = guidelines_url,
      sections = (if scrape 0 secs = [] then fallbackGuidelines else scrape 0 secs),
      error = None, cached = None, cacheAge = None, stale = None\<rparr>"

definition fetched_document :: "int \<Rightarrow> fetch_outcome \<Rightarrow> guidelines" where
  "fetched_document t outcome =
     (case outcome of Threw msg \<Rightarrow> fallback_document t | Scraped secs \<Rightarrow> scraped_document t secs)"

subsection \<open>The shape of a normalized result\<close>

text \<open>
  The canonical structured shape of the specification: a status, the three counts and
  the findings are present.
\<close>

definition canonical_shape :: "scan_results \<Rightarrow> bool" where
  "canonical_shape sr =
     (case summary sr of
        None \<Rightarrow> False
      | Some sm \<Rightarrow>
          status sm \<noteq> None \<and> critical sm \<noteq> None \<and> warnings sm \<noteq> None \<and>
          info sm \<noteq> None \<and> findings sr \<noteq> None)"

text \<open>
  A result for unparsed output \<open>raw\<close>: read by the report generator it has status
  UNKNOWN and no findings, and it keeps the raw text.
\<close>

definition unparsed_result :: "string \<Rightarrow> scan_results \<Rightarrow> bool" where
  "unparsed_result raw n =
     (status_of n = ''UNKNOWN'' \<and> findings_of n = [] \<and> rawOutput n = Some raw)"

subsection \<open>Enriched findings\<close>

text \<open>A finding without its suggested fix.\<close>

definition clear_fix :: "finding \<Rightarrow> finding" where
  "clear_fix f = f\<lparr>fixSuggestion := None\<rparr>"

text \<open>
  What the loop of \<open>generateFixSuggestions\<close> pushes for the finding \<open>f\<close> at its \<open>k\<close>-th
  call: \<open>f\<close> with the suggestion attached, or \<open>f\<close> itself when the call fails.
\<close>

definition enhanced_finding ::
  "(string \<Rightarrow> string) \<Rightarrow> (nat \<Rightarrow> finding \<Rightarrow> api_outcome) \<Rightarrow> nat \<Rightarrow> finding \<Rightarrow> finding" where
  "enhanced_finding trim ai k f =
     (case suggestion_text trim (ai k f) of
        Inr s \<Rightarrow> f\<lparr>fixSuggestion := Some s\<rparr>
      | Inl err \<Rightarrow> f)"


subsection \<open>Pages\<close>

text \<open>The blocks of a sequence of pages, in page order, and those drawn so far.\<close>

definition page_blocks :: "placed list list \<Rightarrow> block list" where
  "page_blocks pages = concat (map (map pblock) pages)"

fun blocks_so_far :: "layout \<Rightarrow> block list" where
  "blocks_so_far (pages, cur, y) = page_blocks (pages @ [cur])"

text \<open>
  The blocks of a report in document order, after the specification: the title block,
  the summary block, (the heading and) one block per finding in the order of the
  findings, the recommendations when there are any, the footer block.
\<close>

definition recommendation_block :: "nat \<Rightarrow> recommendation \<Rightarrow> block" where
  "recommendation_block index r = RecommendationBlock (index + 1) (rec_title r) (rec_description r)"

definition document_blocks :: "scan_results \<Rightarrow> block list" where
  "document_blocks sr =
     [HeaderBlock, summary_block sr, FindingsHeading]
     @ map2 finding_block [0..<length (findings_of sr)] (findings_of sr)
     @ (case recommendations_of sr of
          None \<Rightarrow> []
        | Some recs \<Rightarrow> RecommendationsHeading # map2 recommendation_block [0..<length recs] recs)
     @ [FooterBlock]"

text \<open>The severities of the finding blocks among a list of blocks, in order.\<close>

fun finding_severities :: "block list \<Rightarrow> string list" where
  "finding_severities [] = []"
| "finding_severities (FindingBlock color sev ttl descr gl fix # bs) = sev # finding_severities bs"
| "finding_severities (b # bs) = finding_severities bs"

text \<open>
  The pagination property of the specification, for a body limit \<open>L\<close>: the summed
  heights of the blocks of a page do not exceed \<open>L\<close>, unless one block of the page is
  itself higher than \<open>L\<close>.
\<close>

definition page_height :: "placed list \<Rightarrow> int" where
  "page_height p = sum_list (map ph p)"

definition fits :: "int \<Rightarrow> placed list \<Rightarrow> bool" where
  "fits L p = (page_height p \<le> L \<or> list_ex (\<lambda>b. ph b > L) p)"

definition pages_fit :: "int \<Rightarrow> placed list list \<Rightarrow> bool" where
  "pages_fit L pages = list_all (fits L) pages"

text \<open>
  What the cursor test of the code gives: every block of a page starts at a cursor of at
  most 700, and the blocks of the page before its last one sum to at most 650, the
  distance from the top margin 50 to 700.
\<close>

definition page_within :: "placed list \<Rightarrow> bool" where
  "page_within p =
     (list_all (\<lambda>b. py b \<le> 700) p \<and> sum_list (map ph (butlast p)) \<le> 650)"

text \<open>The blocks \<open>p\<close> follow one another from the cursor \<open>t\<close> to the cursor \<open>y\<close>.\<close>

fun contiguous :: "int \<Rightarrow> placed list \<Rightarrow> int \<Rightarrow> bool" where
  "contiguous t [] y = (t = y)"
| "contiguous t (b # bs) y = (py b = t \<and> contiguous (t + ph b) bs y)"

text \<open>A page that was closed by a cursor test: its last block ends past 650.\<close>

definition page_filled :: "placed list \<Rightarrow> bool" where
  "page_filled p = (p \<noteq> [] \<and> 650 < py (last p) + ph (last p))"

fun layout_ok :: "layout \<Rightarrow> bool" where
  "layout_ok (pages, cur, y) =
     (list_all page_within pages \<and> list_all page_filled pages \<and>
      cur \<noteq> [] \<and> contiguous 50 cur y \<and> list_all (\<lambda>b. py b \<le> 700) cur)"

subsection \<open>Runs of requests\<close>

text \<open>The events that fill the cache, and the clock readings of an event.\<close>

fun is_fill :: "server \<Rightarrow> event \<Rightarrow> bool" where
  "is_fill s (GetCalled now) = False"
| "is_fill s (GetResumed k tf outcome) = (k < length (pending s))"
| "is_fill s (RefreshDone tf tstore outcome) = True"

fun event_times :: "event \<Rightarrow> int list" where
  "event_times (GetCalled now) = [now]"
| "event_times (GetResumed k tf outcome) = [tf]"
| "event_times (RefreshDone tf tstore outcome) = [tf, tstore]"

definition clock_readings :: "event list \<Rightarrow> int list" where
  "clock_readings evs = concat (map event_times evs)"

text \<open>The successive values of \<open>cacheTimestamp\<close> left by the fills of a run.\<close>

fun fills :: "server \<Rightarrow> event list \<Rightarrow> int list" where
  "fills s [] = []"
| "fills s (e # es) =
     (if is_fill s e
      then (case cacheTimestamp (cache (step s e)) of None \<Rightarrow> [] | Some t \<Rightarrow> [t])
      else [])
     @ fills (step s e) es"

text \<open>
  Requests served one at a time: each call of \<open>getCachedGuidelines\<close> resumes before
  the next request starts.
\<close>

datatype request =
  Get int int fetch_outcome
| Refresh int int fetch_outcome

fun events_of :: "request \<Rightarrow> event list" where
  "events_of (Get now tf outcome) = [GetCalled now, GetResumed 0 tf outcome]"
| "events_of (Refresh tf tstore outcome) = [RefreshDone tf tstore outcome]"

definition one_at_a_time :: "request list \<Rightarrow> event list" where
  "one_at_a_time reqs = concat (map events_of reqs)"

section \<open>Sample inputs\<close>

text \<open>The outbound request times out.\<close>

definition timeout_outcome :: fetch_outcome where
  "timeout_outcome = Threw ''timeout of 10000ms exceeded''"

text \<open>A page with one section, and the cache after a first call at time 1000 fetched it.\<close>

definition intro_sections :: "(string \<times> string) list" where
  "intro_sections = [(''Introduction'', ''The guiding principle of the App Store is simple.'')]"

definition intro_page :: fetch_outcome where
  "intro_page = Scraped intro_sections"

definition warm_cache :: cache_state where
  "warm_cache = snd (getCachedGuidelines initial_cache 1000 1010 intro_page)"

text \<open>The first instant at which the entry of \<open>warm_cache\<close> is no longer fresh.\<close>

definition expiry :: int where
  "expiry = 1000 + CACHE_DURATION"

text \<open>
  A parser that agrees with \<open>JSON.parse\<close> on the three scanner outputs used below: the
  empty object, a structured result whose counts disagree with its single finding, and a
  text that is not JSON.
\<close>

definition empty_results :: scan_results where
  "empty_results =
     \<lparr>summary = None, findings = None, aiAnalysis = None,
      rawOutput = None, raw_stderr = None, raw_exitCode = None\<rparr>"

definition blocked_text :: string where
  \<open>blocked_text = ''{"summary":{"status":"BLOCKED","critical":0,"warnings":0,"info":0},"findings":[{"severity":"CRITICAL","title":"X"}]}''\<close>

definition finding_X :: finding where
  "finding_X =
     \<lparr>severity = ''CRITICAL'', title = Some ''X'', description = None, guideline = None,
      fixSuggestion = None, other_keys = []\<rparr>"

definition blocked_results :: scan_results where
  "blocked_results =
     empty_results
       \<lparr>summary := Some \<lparr>status = Some ''BLOCKED'', critical = Some 0,
                          warnings = Some 0, info = Some 0\<rparr>,
        findings := Some [finding_X]\<rparr>"

definition crash_text :: string where
  "crash_text = ''Error: could not open IPA''"

definition sample_parse :: "string \<Rightarrow> scan_results option" where
  "sample_parse s =
     (if s = ''{}'' then Some empty_results
      else if s = blocked_text then Some blocked_results
      else None)"

text \<open>The scanner exits with code 1 after printing its result, or prints only a message.\<close>

definition exec_printing :: "string \<Rightarrow> exec_outcome" where
  "exec_printing out =
     \<lparr>exec_error = Some (''Command failed'', Some 1), exec_stdout = out, exec_stderr = []\<rparr>"

definition printed :: "string \<Rightarrow> greenlight_result" where
  "printed out = \<lparr>stdout = out, stderr = [], exitCode = 1\<rparr>"

definition sample_file :: uploaded_file where
  "sample_file = \<lparr>originalname = ''MyApp.ipa'', filesize = 45678901\<rparr>"

text \<open>A download address and a project path.\<close>

definition sample_url :: "string option" where
  "sample_url = Some ''https://example.com/build.ipa''"

definition sample_project :: "string option" where
  "sample_project = Some ''/Users/dev/MyApp''"

text \<open>Further findings: with a guideline and a key the code does not read, and bare.\<close>

definition finding_Y :: finding where
  "finding_Y =
     \<lparr>severity = ''WARNING'', title = Some ''Y'', description = Some ''Missing purpose string'',
      guideline = Some ''5.1.1'', fixSuggestion = None, other_keys = [(''location'', ''Info.plist'')]\<rparr>"

definition finding_Z :: finding where
  "finding_Z =
     \<lparr>severity = ''INFO'', title = None, description = None, guideline = None,
      fixSuggestion = None, other_keys = []\<rparr>"


text \<open>
  A trim that agrees with \<open>String.prototype.trim\<close> on ASCII texts: it strips the space
  and the characters 9 to 13 from both ends.
\<close>

definition is_space :: "char \<Rightarrow> bool" where
  "is_space c = (c \<in> set [CHR '' '', CHR 0x09, CHR 0x0A, CHR 0x0B, CHR 0x0C, CHR 0x0D])"

definition ascii_trim :: "string \<Rightarrow> string" where
  "ascii_trim s = rev (dropWhile is_space (rev (dropWhile is_space s)))"

text \<open>An API key, and enrichment calls of which only the first succeeds, with a padded reply.\<close>

definition sample_key :: "string option" where
  "sample_key = Some ''sk-test''"

definition sample_ai :: "nat \<Rightarrow> finding \<Rightarrow> api_outcome" where
  "sample_ai k f =
     (if k = 0 then ApiMessage [Some ''  Add a privacy manifest.  '']
      else ApiThrew ''429 rate_limit_error'')"


definition good_object :: string where
  \<open>good_object = ''{"riskLevel":"High","recommendations":[{"title":"Add a privacy manifest","description":"Declare the required reason APIs."}]}''\<close>

definition good_reply :: api_outcome where
  "good_reply = ApiMessage [Some (''Here is the analysis: '' @ good_object)]"

definition good_analysis :: analysis_reply where
  "good_analysis =
     \<lparr>reply_error = None, reply_riskLevel = Some ''High'',
      reply_recommendations =
        Some (RecsArray [Some \<lparr>rec_title = ''Add a privacy manifest'',
                                rec_description = ''Declare the required reason APIs.''\<rparr>]),
      reply_model = None, reply_analyzedAt = None, reply_other = []\<rparr>"

definition odd_object :: string where
  \<open>odd_object = ''{"riskLevel":"High","recommendations":"Add a privacy manifest"}''\<close>

definition odd_reply :: api_outcome where
  "odd_reply = ApiMessage [Some odd_object]"

definition odd_analysis :: analysis_reply where
  "odd_analysis =
     \<lparr>reply_error = None, reply_riskLevel = Some ''High'',
      reply_recommendations = Some RecsTruthy,
      reply_model = None, reply_analyzedAt = None, reply_other = []\<rparr>"

definition sample_parse_analysis :: "string \<Rightarrow> string + analysis_reply" where
  "sample_parse_analysis s =
     (if s = good_object then Inr good_analysis
      else if s = odd_object then Inr odd_analysis
      else Inl ''Unexpected token'')"

text \<open>A scan whose findings are not in the order of their severity.\<close>

definition mixed_findings :: scan_results where
  "mixed_findings = empty_results\<lparr>findings := Some [finding_Z, finding_X, finding_Y]\<rparr>"

text \<open>
  A text measure of the kind the specification describes: a line height (the font size
  plus 2) times the number of lines, at one character per 6 units of width.
\<close>

definition line_measure :: "nat \<Rightarrow> string \<Rightarrow> int \<Rightarrow> int" where
  "line_measure fs t w = (int fs + 2) * ((int (length t) + (w div 6) - 1) div (w div 6))"

text \<open>A finding whose description fills 20 lines, and a scan with five of them.\<close>

definition long_finding :: finding where
  "long_finding =
     \<lparr>severity = ''WARNING'', title = Some ''T'', description = Some (replicate 1700 CHR ''a''),
      guideline = None, fixSuggestion = None, other_keys = []\<rparr>"

definition five_findings :: scan_results where
  "five_findings = empty_results\<lparr>findings := Some (replicate 5 long_finding)\<rparr>"

text \<open>
  Two calls miss the empty cache at times 100 and 200; the fetch of the second settles
  at 300, that of the first at 400.
\<close>

definition overlapping_run :: "event list" where
  "overlapping_run =
     [GetCalled 100, GetCalled 200, GetResumed 1 300 intro_page, GetResumed 0 400 intro_page]"

text \<open>A first call, a refresh whose request fails, and a call after the entry expired.\<close>

definition sequential_run :: "request list" where
  "sequential_run =
     [Get 100 110 intro_page, Refresh 200 210 timeout_outcome,
      Get (210 + CACHE_DURATION) (220 + CACHE_DURATION) intro_page]"

section \<open>Properties\<close>

subsection \<open>The fetcher and the cache\<close>

lemma fallbackGuidelines_length: "length fallbackGuidelines = 5"
  by (simp add: fallbackGuidelines_def)

lemma fallbackGuidelines_nonempty: "fallbackGuidelines \<noteq> []"
  using fallbackGuidelines_length by auto

lemma fetchAppleGuidelines_eq: "fetchAppleGuidelines t outcome = Inr (fetched_document t outcome)"
  by (cases outcome)
     (simp_all add: fetchAppleGuidelines_def fetch_try_def fetched_document_def
        fallback_document_def scraped_document_def Let_def)

lemma fetched_document_sections: "sections (fetched_document t outcome) \<noteq> []"
  by (cases outcome)
     (simp_all add: fetched_document_def fallback_document_def scraped_document_def
        fallbackGuidelines_nonempty)

lemma getCachedGuidelines_miss:
  "get_fresh_reply st now = None \<Longrightarrow>
   getCachedGuidelines st now tf outcome =
     (Inr (fetched_document tf outcome),
      st\<lparr>guidelinesCache := Some (fetched_document tf outcome), cacheTimestamp := Some now\<rparr>)"
  by (simp add: getCachedGuidelines_def get_resume_def fetchAppleGuidelines_eq)

lemma getCachedGuidelines_hit:
  "get_fresh_reply st now = Some reply \<Longrightarrow> getCachedGuidelines st now tf outcome = (Inr reply, st)"
  by (simp add: getCachedGuidelines_def)

text \<open>
  What the \<open>catch\<close> branch of \<open>getCachedGuidelines\<close> would do, were the fetcher to
  reject: serve the entry marked stale, or rethrow when there is none.
\<close>

lemma get_resume_rejected:
  "get_resume st now (Inl err) =
     (case guidelinesCache st of
        Some g \<Rightarrow>
          (Inr (g\<lparr>cached := Some True, stale := Some True,
                  error := Some ''Failed to fetch fresh guidelines, serving stale cache''\<rparr>), st)
      | None \<Rightarrow> (Inl err, st))"
  by (simp add: get_resume_def)

lemma getCachedGuidelines_Inr: "\<exists>g st'. getCachedGuidelines st now tf outcome = (Inr g, st')"
  by (cases "get_fresh_reply st now") (simp_all add: getCachedGuidelines_miss getCachedGuidelines_hit)

lemma refresh_handler_eq:
  "refresh_handler st tf tstore outcome =
     (Status200 (fetched_document tf outcome),
      st\<lparr>guidelinesCache := Some (fetched_document tf outcome), cacheTimestamp := Some tstore\<rparr>)"
  by (simp add: refresh_handler_def fetchAppleGuidelines_eq)

text \<open>
  C10. The fetcher is total: whatever the outbound request meets, \<open>fetchAppleGuidelines\<close>
  resolves to a document whose list of sections is not empty: the scraped sections, or
  the built-in list of five sections when the request throws (then with the \<open>error\<close>
  field) or when nothing is scraped. So \<open>getCachedGuidelines\<close> never takes its
  \<open>catch\<close> branch: on a miss it stores and returns the fetched document, and the refresh
  handler always answers 200.
\<close>

theorem fetcher_total_nonempty:
  "\<exists>doc. fetchAppleGuidelines t outcome = Inr doc \<and> sections doc \<noteq> [] \<and>
     length fallbackGuidelines = 5 \<and>
     (\<forall>msg. outcome = Threw msg \<longrightarrow>
        sections doc = fallbackGuidelines \<and>
        error doc = Some ''Failed to fetch live guidelines, using fallback'') \<and>
     (\<forall>secs. outcome = Scraped secs \<longrightarrow>
        sections doc = (if scrape 0 secs = [] then fallbackGuidelines else scrape 0 secs) \<and>
        error doc = None) \<and>
     (get_fresh_reply st now = None \<longrightarrow>
        getCachedGuidelines st now t outcome =
          (Inr doc, st\<lparr>guidelinesCache := Some doc, cacheTimestamp := Some now\<rparr>)) \<and>
     (\<forall>reply. get_fresh_reply st now = Some reply \<longrightarrow>
        getCachedGuidelines st now t outcome = (Inr reply, st)) \<and>
     refresh_handler st t tstore outcome =
       (Status200 doc, st\<lparr>guidelinesCache := Some doc, cacheTimestamp := Some tstore\<rparr>)"
proof (intro exI conjI)
  show "fetchAppleGuidelines t outcome = Inr (fetched_document t outcome)"
    by (rule fetchAppleGuidelines_eq)
  show "sections (fetched_document t outcome) \<noteq> []"
    by (rule fetched_document_sections)
  show "length fallbackGuidelines = 5"
    by (rule fallbackGuidelines_length)
  show "\<forall>msg. outcome = Threw msg \<longrightarrow>
        sections (fetched_document t outcome) = fallbackGuidelines \<and>
        error (fetched_document t outcome) = Some ''Failed to fetch live guidelines, using fallback''"
    by (simp add: fetched_document_def fallback_document_def)
  show "\<forall>secs. outcome = Scraped secs \<longrightarrow>
        sections (fetched_document t outcome) =
          (if scrape 0 secs = [] then fallbackGuidelines else scrape 0 secs) \<and>
        error (fetched_document t outcome) = None"
    by (simp add: fetched_document_def scraped_document_def)
  show "get_fresh_reply st now = None \<longrightarrow>
        getCachedGuidelines st now t outcome =
          (Inr (fetched_document t outcome),
           st\<lparr>guidelinesCache := Some (fetched_document t outcome), cacheTimestamp := Some now\<rparr>)"
    by (simp add: getCachedGuidelines_miss)
  show "\<forall>reply. get_fresh_reply st now = Some reply \<longrightarrow>
        getCachedGuidelines st now t outcome = (Inr reply, st)"
    by (simp add: getCachedGuidelines_hit)
  show "refresh_handler st t tstore outcome =
       (Status200 (fetched_document t outcome),
        st\<lparr>guidelinesCache := Some (fetched_document t outcome), cacheTimestamp := Some tstore\<rparr>)"
    by (rule refresh_handler_eq)
qed

text \<open>The instance of C10 for a first call whose request times out.\<close>

theorem fetcher_total_nonempty_witness:
  "get_fresh_reply initial_cache 5000 = None \<and>
   getCachedGuidelines initial_cache 5000 5010 timeout_outcome =
     (Inr (fallback_document 5010),
      \<lparr>guidelinesCache = Some (fallback_document 5010), cacheTimestamp = Some 5000\<rparr>)"
proof -
  have miss: "get_fresh_reply initial_cache 5000 = None"
    by (simp add: get_fresh_reply_def initial_cache_def)
  from fetcher_total_nonempty [of 5010 timeout_outcome initial_cache 5000 0]
  obtain doc where
    d: "fetchAppleGuidelines 5010 timeout_outcome = Inr doc"
    and g: "get_fresh_reply initial_cache 5000 = None \<longrightarrow>
        getCachedGuidelines initial_cache 5000 5010 timeout_outcome =
          (Inr doc, initial_cache\<lparr>guidelinesCache := Some doc, cacheTimestamp := Some 5000\<rparr>)"
    by (elim exE conjE) (rule that)
  from d have "doc = fallback_document 5010"
    by (simp add: fetchAppleGuidelines_eq fetched_document_def timeout_outcome_def)
  with g miss show ?thesis by (simp add: initial_cache_def)
qed

lemma get_fresh_reply_initial: "get_fresh_reply initial_cache now = None"
  by (simp add: get_fresh_reply_def initial_cache_def)

lemma warm_cache_eq:
  "warm_cache =
     \<lparr>guidelinesCache = Some (scraped_document 1010 intro_sections), cacheTimestamp = Some 1000\<rparr>"
proof -
  have "getCachedGuidelines initial_cache 1000 1010 intro_page =
      (Inr (fetched_document 1010 intro_page),
       initial_cache\<lparr>guidelinesCache := Some (fetched_document 1010 intro_page),
                     cacheTimestamp := Some 1000\<rparr>)"
    by (rule getCachedGuidelines_miss [OF get_fresh_reply_initial])
  then show ?thesis
    by (simp add: warm_cache_def fetched_document_def intro_page_def initial_cache_def)
qed

lemma warm_cache_sections:
  "sections (scraped_document 1010 intro_sections) =
     [\<lparr>section_no = 1, section_title = ''Introduction'',
       section_content = ''The guiding principle of the App Store is simple.''\<rparr>]"
  by (simp add: scraped_document_def intro_sections_def)

lemma warm_cache_fresh_before_expiry:
  "get_fresh_reply warm_cache (expiry - 1) =
     Some ((scraped_document 1010 intro_sections)\<lparr>cached := Some True, cacheAge := Some 1439\<rparr>)"
  by (simp add: warm_cache_eq get_fresh_reply_def expiry_def CACHE_DURATION_def)

lemma warm_cache_expired: "get_fresh_reply warm_cache expiry = None"
  by (simp add: warm_cache_eq get_fresh_reply_def expiry_def)

text \<open>
  C2. An expired entry exists and the outbound request fails: \<open>getCachedGuidelines\<close>
  does not return the entry marked \<open>cached\<close> and \<open>stale\<close>; it returns the built-in
  fallback document, unmarked, and overwrites the entry with it.
\<close>

theorem expired_entry_replaced_by_fallback:
  "guidelinesCache warm_cache = Some (scraped_document 1010 intro_sections) \<and>
   get_fresh_reply warm_cache expiry = None \<and>
   getCachedGuidelines warm_cache expiry (expiry + 10000) timeout_outcome =
     (Inr (fallback_document (expiry + 10000)),
      \<lparr>guidelinesCache = Some (fallback_document (expiry + 10000)),
       cacheTimestamp = Some expiry\<rparr>) \<and>
   stale (fallback_document (expiry + 10000)) = None \<and>
   cached (fallback_document (expiry + 10000)) = None \<and>
   sections (fallback_document (expiry + 10000)) = fallbackGuidelines \<and>
   fallbackGuidelines \<noteq> sections (scraped_document 1010 intro_sections)"
proof (intro conjI)
  show "guidelinesCache warm_cache = Some (scraped_document 1010 intro_sections)"
    by (simp add: warm_cache_eq)
  show "get_fresh_reply warm_cache expiry = None"
    by (rule warm_cache_expired)
  show "getCachedGuidelines warm_cache expiry (expiry + 10000) timeout_outcome =
     (Inr (fallback_document (expiry + 10000)),
      \<lparr>guidelinesCache = Some (fallback_document (expiry + 10000)),
       cacheTimestamp = Some expiry\<rparr>)"
    using getCachedGuidelines_miss [OF warm_cache_expired, of "expiry + 10000" timeout_outcome]
    by (simp add: fetched_document_def timeout_outcome_def warm_cache_eq)
  show "stale (fallback_document (expiry + 10000)) = None"
    by (simp add: fallback_document_def)
  show "cached (fallback_document (expiry + 10000)) = None"
    by (simp add: fallback_document_def)
  show "sections (fallback_document (expiry + 10000)) = fallbackGuidelines"
    by (simp add: fallback_document_def)
  have "length fallbackGuidelines \<noteq> length (sections (scraped_document 1010 intro_sections))"
    by (simp add: fallbackGuidelines_length warm_cache_sections)
  then show "fallbackGuidelines \<noteq> sections (scraped_document 1010 intro_sections)"
    by auto
qed

text \<open>
  C3. A forced refresh whose outbound request fails answers 200 with the built-in
  fallback document and stores it over the entry; it does not answer 500.
\<close>

theorem refresh_failure_answers_200:
  "refresh_handler warm_cache (expiry + 10000) (expiry + 10001) timeout_outcome =
     (Status200 (fallback_document (expiry + 10000)),
      \<lparr>guidelinesCache = Some (fallback_document (expiry + 10000)),
       cacheTimestamp = Some (expiry + 10001)\<rparr>) \<and>
   sections (fallback_document (expiry + 10000)) = fallbackGuidelines \<and>
   error (fallback_document (expiry + 10000)) =
     Some ''Failed to fetch live guidelines, using fallback''"
  by (simp add: refresh_handler_eq fetched_document_def timeout_outcome_def warm_cache_eq
        fallback_document_def)

subsection \<open>Normalizing the scanner output\<close>

lemma runGreenlight_printing:
  "out \<noteq> [] \<Longrightarrow> runGreenlight (exec_printing out) = Inr (printed out)"
  by (simp add: runGreenlight_def exec_printing_def printed_def)

lemma blocked_text_nonempty: "blocked_text \<noteq> []"
  by (simp add: blocked_text_def)

lemma crash_text_nonempty: "crash_text \<noteq> []"
  by (simp add: crash_text_def)

lemma sample_parse_empty: "sample_parse ''{}'' = Some empty_results"
  by (simp add: sample_parse_def)

lemma sample_parse_blocked: "sample_parse blocked_text = Some blocked_results"
  by (simp add: sample_parse_def) (simp add: blocked_text_def)

lemma sample_parse_crash: "sample_parse crash_text = None"
  by (simp add: sample_parse_def crash_text_def blocked_text_def)

lemma parse_scan_output_parsed:
  "parse (stdout result) = Some sr \<Longrightarrow> parse_scan_output parse result = sr"
  by (simp add: parse_scan_output_def)

lemma parse_scan_output_unparsed:
  "parse (stdout result) = None \<Longrightarrow>
   parse_scan_output parse result =
     \<lparr>summary = None, findings = None, aiAnalysis = None,
      rawOutput = Some (stdout result), raw_stderr = Some (stderr result),
      raw_exitCode = Some (exitCode result)\<rparr>"
  by (simp add: parse_scan_output_def)

text \<open>
  The upload handler answers 200 whenever the scanner process yields a result: neither
  the parse nor the guideline lookup can make it fail.
\<close>

lemma upload_handler_ok:
  assumes "runGreenlight ex = Inr result"
  shows "\<exists>g st'. getCachedGuidelines st now tf outcome = (Inr g, st') \<and>
     upload_handler parse st (Some f) ex tstamp now tf outcome =
       (Status200 \<lparr>timestamp = tstamp, fileName = originalname f, fileSize = filesize f,
                   results = parse_scan_output parse result, report_guidelines = Some g\<rparr>, st')"
proof -
  obtain g st' where g: "getCachedGuidelines st now tf outcome = (Inr g, st')"
    using getCachedGuidelines_Inr by blast
  with assms have "upload_handler parse st (Some f) ex tstamp now tf outcome =
       (Status200 \<lparr>timestamp = tstamp, fileName = originalname f, fileSize = filesize f,
                   results = parse_scan_output parse result, report_guidelines = Some g\<rparr>, st')"
    by (simp add: upload_handler_def)
  with g show ?thesis by blast
qed

text \<open>
  C4, as stated, fails: the output \<open>{}\<close> is valid JSON that lacks the canonical shape; it
  is returned as parsed, and the raw text is not kept.
\<close>

theorem valid_json_keeps_no_raw_text:
  "sample_parse ''{}'' = Some empty_results \<and>
   \<not> canonical_shape empty_results \<and>
   parse_scan_output sample_parse (printed ''{}'') = empty_results \<and>
   rawOutput (parse_scan_output sample_parse (printed ''{}'')) = None \<and>
   \<not> unparsed_result ''{}'' (parse_scan_output sample_parse (printed ''{}''))"
proof -
  have p: "parse_scan_output sample_parse (printed ''{}'') = empty_results"
    by (rule parse_scan_output_parsed) (simp add: printed_def sample_parse_empty)
  show ?thesis
    by (simp add: p sample_parse_empty)
       (simp add: canonical_shape_def unparsed_result_def empty_results_def)
qed

text \<open>
  C4, amended. Normalization never raises. When the output is not valid JSON the result
  is the object \<open>{rawOutput, stderr, exitCode}\<close>: it keeps the raw text, and having
  neither a summary nor findings it is read as status UNKNOWN with no findings. Output
  that is valid JSON is returned as parsed, whatever its shape. Either way the handler
  answers 200 with that result.
\<close>

theorem unparseable_output_kept_raw:
  "(parse (stdout result) = None \<longrightarrow>
      unparsed_result (stdout result) (parse_scan_output parse result) \<and>
      raw_stderr (parse_scan_output parse result) = Some (stderr result) \<and>
      raw_exitCode (parse_scan_output parse result) = Some (exitCode result)) \<and>
   (\<forall>sr. parse (stdout result) = Some sr \<longrightarrow> parse_scan_output parse result = sr) \<and>
   (runGreenlight ex = Inr result \<longrightarrow>
      (\<exists>rep st'. upload_handler parse st (Some f) ex tstamp now tf outcome = (Status200 rep, st') \<and>
         results rep = parse_scan_output parse result))"
proof (intro conjI impI allI)
  assume "parse (stdout result) = None"
  then have n: "parse_scan_output parse result =
     \<lparr>summary = None, findings = None, aiAnalysis = None,
      rawOutput = Some (stdout result), raw_stderr = Some (stderr result),
      raw_exitCode = Some (exitCode result)\<rparr>"
    by (rule parse_scan_output_unparsed)
  show "unparsed_result (stdout result) (parse_scan_output parse result)"
    by (simp add: n unparsed_result_def status_of_def findings_of_def)
  show "raw_stderr (parse_scan_output parse result) = Some (stderr result)"
    by (simp add: n)
  show "raw_exitCode (parse_scan_output parse result) = Some (exitCode result)"
    by (simp add: n)
next
  fix sr assume "parse (stdout result) = Some sr"
  then show "parse_scan_output parse result = sr"
    by (rule parse_scan_output_parsed)
next
  assume "runGreenlight ex = Inr result"
  from upload_handler_ok [OF this, of st now tf outcome parse f tstamp]
  show "\<exists>rep st'. upload_handler parse st (Some f) ex tstamp now tf outcome = (Status200 rep, st') \<and>
         results rep = parse_scan_output parse result"
    by auto
qed

text \<open>
  An instance of C4: a message that is not JSON is kept raw, and a structured output is
  returned as parsed.
\<close>

theorem unparseable_output_kept_raw_witness:
  "sample_parse (stdout (printed crash_text)) = None \<and>
   runGreenlight (exec_printing crash_text) = Inr (printed crash_text) \<and>
   unparsed_result crash_text (parse_scan_output sample_parse (printed crash_text)) \<and>
   raw_exitCode (parse_scan_output sample_parse (printed crash_text)) = Some 1 \<and>
   sample_parse (stdout (printed blocked_text)) = Some blocked_results \<and>
   parse_scan_output sample_parse (printed blocked_text) = blocked_results \<and>
   (\<exists>rep st'. upload_handler sample_parse initial_cache (Some sample_file)
        (exec_printing crash_text) 6000 6001 6011 timeout_outcome = (Status200 rep, st') \<and>
      results rep = parse_scan_output sample_parse (printed crash_text))"
proof -
  have n: "sample_parse (stdout (printed crash_text)) = None"
    by (simp add: printed_def sample_parse_crash)
  have r: "runGreenlight (exec_printing crash_text) = Inr (printed crash_text)"
    by (rule runGreenlight_printing [OF crash_text_nonempty])
  have s: "stdout (printed crash_text) = crash_text" "exitCode (printed crash_text) = 1"
    by (simp_all add: printed_def)
  have b: "sample_parse (stdout (printed blocked_text)) = Some blocked_results"
    by (simp add: printed_def sample_parse_blocked)
  from unparseable_output_kept_raw [of sample_parse "printed blocked_text"] b
  have pb: "parse_scan_output sample_parse (printed blocked_text) = blocked_results"
    by blast
  from unparseable_output_kept_raw [of sample_parse "printed crash_text"
      "exec_printing crash_text" initial_cache sample_file 6000 6001 6011 timeout_outcome]
    n r s b pb
  show ?thesis by simp
qed

text \<open>
  C5, as stated, fails: the scanner reports one CRITICAL finding with all counts 0; the
  normalized result still has the count 0 where the tally of its findings is 1.
\<close>

theorem reported_counts_not_recomputed:
  "sample_parse (stdout (printed blocked_text)) = Some blocked_results \<and>
   findings_of (parse_scan_output sample_parse (printed blocked_text)) = [finding_X] \<and>
   critical_of (parse_scan_output sample_parse (printed blocked_text)) = 0 \<and>
   tally ''CRITICAL'' (findings_of (parse_scan_output sample_parse (printed blocked_text))) = 1"
proof -
  have b: "sample_parse (stdout (printed blocked_text)) = Some blocked_results"
    by (simp add: printed_def sample_parse_blocked)
  have p: "parse_scan_output sample_parse (printed blocked_text) = blocked_results"
    using b by (rule parse_scan_output_parsed)
  show ?thesis
    by (simp add: b p)
       (simp add: blocked_results_def findings_of_def critical_of_def count_or_zero_def
          tally_def finding_X_def)
qed

text \<open>
  C5, amended. The normalized result of a structured output is the parsed object
  itself: the status, the counts and the findings are the reported ones, with no
  validation against the findings and no recomputation, so each count equals the tally
  of the findings exactly when the reported count does. The request is not failed: the
  handler answers 200 with that object.
\<close>

theorem structured_output_passed_through:
  assumes "parse (stdout result) = Some sr"
  shows "parse_scan_output parse result = sr \<and>
     status_of (parse_scan_output parse result) = status_of sr \<and>
     critical_of (parse_scan_output parse result) = critical_of sr \<and>
     warnings_of (parse_scan_output parse result) = warnings_of sr \<and>
     info_of (parse_scan_output parse result) = info_of sr \<and>
     findings_of (parse_scan_output parse result) = findings_of sr \<and>
     (runGreenlight ex = Inr result \<longrightarrow>
        (\<exists>g st'. upload_handler parse st (Some f) ex tstamp now tf outcome =
           (Status200 \<lparr>timestamp = tstamp, fileName = originalname f, fileSize = filesize f,
                       results = sr, report_guidelines = Some g\<rparr>, st')))"
proof -
  have p: "parse_scan_output parse result = sr"
    using assms by (rule parse_scan_output_parsed)
  have "runGreenlight ex = Inr result \<longrightarrow>
        (\<exists>g st'. upload_handler parse st (Some f) ex tstamp now tf outcome =
           (Status200 \<lparr>timestamp = tstamp, fileName = originalname f, fileSize = filesize f,
                       results = sr, report_guidelines = Some g\<rparr>, st'))"
  proof
    assume "runGreenlight ex = Inr result"
    from upload_handler_ok [OF this, of st now tf outcome parse f tstamp] p
    show "\<exists>g st'. upload_handler parse st (Some f) ex tstamp now tf outcome =
           (Status200 \<lparr>timestamp = tstamp, fileName = originalname f, fileSize = filesize f,
                       results = sr, report_guidelines = Some g\<rparr>, st')"
      by auto
  qed
  with p show ?thesis by simp
qed

text \<open>An instance of C5: the structured output above, with a fresh cache entry.\<close>

theorem structured_output_passed_through_witness:
  "sample_parse (stdout (printed blocked_text)) = Some blocked_results \<and>
   runGreenlight (exec_printing blocked_text) = Inr (printed blocked_text) \<and>
   parse_scan_output sample_parse (printed blocked_text) = blocked_results \<and>
   critical_of (parse_scan_output sample_parse (printed blocked_text)) = critical_of blocked_results \<and>
   (\<exists>g st'. upload_handler sample_parse warm_cache (Some sample_file)
        (exec_printing blocked_text) 6000 6001 6011 intro_page =
      (Status200 \<lparr>timestamp = 6000, fileName = originalname sample_file,
                  fileSize = filesize sample_file, results = blocked_results,
                  report_guidelines = Some g\<rparr>, st'))"
proof -
  have b: "sample_parse (stdout (printed blocked_text)) = Some blocked_results"
    by (simp add: printed_def sample_parse_blocked)
  have r: "runGreenlight (exec_printing blocked_text) = Inr (printed blocked_text)"
    by (rule runGreenlight_printing [OF blocked_text_nonempty])
  from structured_output_passed_through [where parse = sample_parse
      and result = "printed blocked_text" and sr = blocked_results
      and ex = "exec_printing blocked_text" and st = warm_cache and f = sample_file
      and tstamp = 6000 and now = 6001 and tf = 6011 and outcome = intro_page] b r
  show ?thesis by simp
qed

subsection \<open>Guidelines in the scan reports\<close>

lemma url_handler_ok:
  assumes "u \<noteq> []" and "ends_with_ipa u" and "runGreenlight ex = Inr result"
    and "getCachedGuidelines st now tf outcome = (Inr g, st')"
  shows "url_handler parse st (Some u) True (Inr sz) ex tstamp now tf outcome =
     (Some (Status200 \<lparr>ur_timestamp = tstamp, ur_sourceUrl = u, ur_fileSize = sz,
                       ur_results = parse_scan_output parse result, ur_guidelines = Some g\<rparr>), st')"
  using assms by (simp add: url_handler_def)

lemma preflight_handler_ok:
  assumes "truthy projectPath" and "runGreenlight ex = Inr result"
    and "getCachedGuidelines st now tf outcome = (Inr g, st')"
  shows "preflight_handler parse st projectPath ex tid tstamp now tf outcome =
     (Status200 \<lparr>pr_scanId = tid, pr_timestamp = tstamp,
                 pr_projectPath = or_default projectPath [], pr_scanType = None,
                 pr_results = parse_scan_output parse result, pr_guidelines = Some g\<rparr>, st')"
  using assms by (simp add: preflight_handler_def)

lemma code_handler_ok:
  assumes "truthy projectPath" and "runGreenlight ex = Inr result"
  shows "code_handler parse projectPath ex tid tstamp =
     Status200 \<lparr>pr_scanId = tid, pr_timestamp = tstamp,
                pr_projectPath = or_default projectPath [], pr_scanType = Some ''code'',
                pr_results = parse_scan_output parse result, pr_guidelines = None\<rparr>"
  using assms by (simp add: code_handler_def)

lemma privacy_handler_ok:
  assumes "truthy projectPath" and "runGreenlight ex = Inr result"
  shows "privacy_handler parse projectPath ex tid tstamp =
     Status200 \<lparr>pr_scanId = tid, pr_timestamp = tstamp,
                pr_projectPath = or_default projectPath [], pr_scanType = Some ''privacy'',
                pr_results = parse_scan_output parse result, pr_guidelines = None\<rparr>"
  using assms by (simp add: privacy_handler_def)

lemma get_fresh_reply_no_entry: "guidelinesCache st = None \<Longrightarrow> get_fresh_reply st now = None"
  by (simp add: get_fresh_reply_def)

text \<open>
  C7, as stated, fails: the report of a code scan is produced without guidelines, and
  without a call of the cache.
\<close>

theorem code_scan_report_has_no_guidelines:
  "code_handler sample_parse sample_project (exec_printing blocked_text) 6000 6001 =
     Status200 \<lparr>pr_scanId = 6000, pr_timestamp = 6001, pr_projectPath = ''/Users/dev/MyApp'',
                pr_scanType = Some ''code'', pr_results = blocked_results,
                pr_guidelines = None\<rparr>"
proof -
  have r: "runGreenlight (exec_printing blocked_text) = Inr (printed blocked_text)"
    by (rule runGreenlight_printing [OF blocked_text_nonempty])
  have b: "sample_parse (stdout (printed blocked_text)) = Some blocked_results"
    by (simp add: printed_def sample_parse_blocked)
  have p: "parse_scan_output sample_parse (printed blocked_text) = blocked_results"
    using b by (rule parse_scan_output_parsed)
  have t: "truthy sample_project"
    by (simp add: truthy_def sample_project_def)
  show ?thesis
    by (simp add: code_handler_ok [OF t r] p) (simp add: or_default_def sample_project_def)
qed

text \<open>
  C7, amended. On the routes \<open>/api/scan/upload\<close>, \<open>/api/scan/url\<close> and
  \<open>/api/scan/preflight\<close>, whenever the steps before the reply succeed, the report is
  produced and carries the guidelines returned by \<open>getCachedGuidelines\<close>, a call that
  never fails: a fresh entry is served from the cache, a successful fetch gives the
  fetched document, and when there is no entry and the outbound request fails the
  guidelines are the built-in fallback document with its \<open>error\<close> field, not an absent
  value. The reports of \<open>/api/scan/code\<close> and \<open>/api/scan/privacy\<close> carry no guidelines.
  No scan request fails because guidelines are unavailable.
\<close>

theorem scan_reports_and_guidelines:
  assumes "runGreenlight ex = Inr result"
  shows "\<exists>g st'. getCachedGuidelines st now tf outcome = (Inr g, st') \<and>
     upload_handler parse st (Some f) ex tstamp now tf outcome =
       (Status200 \<lparr>timestamp = tstamp, fileName = originalname f, fileSize = filesize f,
                   results = parse_scan_output parse result, report_guidelines = Some g\<rparr>, st') \<and>
     (u \<noteq> [] \<and> ends_with_ipa u \<longrightarrow>
        url_handler parse st (Some u) True (Inr sz) ex tstamp now tf outcome =
          (Some (Status200 \<lparr>ur_timestamp = tstamp, ur_sourceUrl = u, ur_fileSize = sz,
                            ur_results = parse_scan_output parse result,
                            ur_guidelines = Some g\<rparr>), st')) \<and>
     (truthy projectPath \<longrightarrow>
        preflight_handler parse st projectPath ex tid tstamp now tf outcome =
          (Status200 \<lparr>pr_scanId = tid, pr_timestamp = tstamp,
                      pr_projectPath = or_default projectPath [], pr_scanType = None,
                      pr_results = parse_scan_output parse result, pr_guidelines = Some g\<rparr>, st') \<and>
        code_handler parse projectPath ex tid tstamp =
          Status200 \<lparr>pr_scanId = tid, pr_timestamp = tstamp,
                     pr_projectPath = or_default projectPath [], pr_scanType = Some ''code'',
                     pr_results = parse_scan_output parse result, pr_guidelines = None\<rparr> \<and>
        privacy_handler parse projectPath ex tid tstamp =
          Status200 \<lparr>pr_scanId = tid, pr_timestamp = tstamp,
                     pr_projectPath = or_default projectPath [], pr_scanType = Some ''privacy'',
                     pr_results = parse_scan_output parse result, pr_guidelines = None\<rparr>) \<and>
     (\<forall>reply. get_fresh_reply st now = Some reply \<longrightarrow> g = reply \<and> st' = st) \<and>
     (\<forall>secs. get_fresh_reply st now = None \<and> outcome = Scraped secs \<longrightarrow>
        g = scraped_document tf secs \<and> sections g \<noteq> []) \<and>
     (guidelinesCache st = None \<and> (\<exists>msg. outcome = Threw msg) \<longrightarrow>
        g = fallback_document tf \<and> sections g = fallbackGuidelines \<and>
        error g = Some ''Failed to fetch live guidelines, using fallback'')"
proof -
  from upload_handler_ok [OF assms, of st now tf outcome parse f tstamp]
  obtain g st' where g: "getCachedGuidelines st now tf outcome = (Inr g, st')"
    and up: "upload_handler parse st (Some f) ex tstamp now tf outcome =
       (Status200 \<lparr>timestamp = tstamp, fileName = originalname f, fileSize = filesize f,
                   results = parse_scan_output parse result, report_guidelines = Some g\<rparr>, st')"
    by (elim exE conjE) (rule that)
  have ur: "u \<noteq> [] \<and> ends_with_ipa u \<longrightarrow>
        url_handler parse st (Some u) True (Inr sz) ex tstamp now tf outcome =
          (Some (Status200 \<lparr>ur_timestamp = tstamp, ur_sourceUrl = u, ur_fileSize = sz,
                            ur_results = parse_scan_output parse result,
                            ur_guidelines = Some g\<rparr>), st')"
    using url_handler_ok [OF _ _ assms g] by blast
  have pr: "truthy projectPath \<longrightarrow>
        preflight_handler parse st projectPath ex tid tstamp now tf outcome =
          (Status200 \<lparr>pr_scanId = tid, pr_timestamp = tstamp,
                      pr_projectPath = or_default projectPath [], pr_scanType = None,
                      pr_results = parse_scan_output parse result, pr_guidelines = Some g\<rparr>, st') \<and>
        code_handler parse projectPath ex tid tstamp =
          Status200 \<lparr>pr_scanId = tid, pr_timestamp = tstamp,
                     pr_projectPath = or_default projectPath [], pr_scanType = Some ''code'',
                     pr_results = parse_scan_output parse result, pr_guidelines = None\<rparr> \<and>
        privacy_handler parse projectPath ex tid tstamp =
          Status200 \<lparr>pr_scanId = tid, pr_timestamp = tstamp,
                     pr_projectPath = or_default projectPath [], pr_scanType = Some ''privacy'',
                     pr_results = parse_scan_output parse result, pr_guidelines = None\<rparr>"
    using preflight_handler_ok [OF _ assms g] code_handler_ok [OF _ assms]
      privacy_handler_ok [OF _ assms] by blast
  have hit: "\<forall>reply. get_fresh_reply st now = Some reply \<longrightarrow> g = reply \<and> st' = st"
    using g by (auto simp: getCachedGuidelines_hit)
  have sc: "\<forall>secs. get_fresh_reply st now = None \<and> outcome = Scraped secs \<longrightarrow>
        g = scraped_document tf secs \<and> sections g \<noteq> []"
  proof (intro allI impI)
    fix secs
    assume h: "get_fresh_reply st now = None \<and> outcome = Scraped secs"
    then have "g = fetched_document tf outcome"
      using g by (auto simp: getCachedGuidelines_miss)
    with h show "g = scraped_document tf secs \<and> sections g \<noteq> []"
      using fetched_document_sections [of tf outcome] by (auto simp: fetched_document_def)
  qed
  have fb: "guidelinesCache st = None \<and> (\<exists>msg. outcome = Threw msg) \<longrightarrow>
        g = fallback_document tf \<and> sections g = fallbackGuidelines \<and>
        error g = Some ''Failed to fetch live guidelines, using fallback''"
  proof
    assume h: "guidelinesCache st = None \<and> (\<exists>msg. outcome = Threw msg)"
    then have "get_fresh_reply st now = None"
      by (simp add: get_fresh_reply_no_entry)
    then have "g = fetched_document tf outcome"
      using g by (auto simp: getCachedGuidelines_miss)
    with h have "g = fallback_document tf"
      by (auto simp: fetched_document_def)
    then show "g = fallback_document tf \<and> sections g = fallbackGuidelines \<and>
        error g = Some ''Failed to fetch live guidelines, using fallback''"
      by (simp add: fallback_document_def)
  qed
  show ?thesis
  proof (intro exI conjI)
    show "getCachedGuidelines st now tf outcome = (Inr g, st')"
      by (rule g)
  qed (rule up ur pr hit sc fb)+
qed

text \<open>
  An instance of C7: nothing is cached, the outbound request times out and the scanner
  prints text that is not JSON; the three reports with guidelines carry the fallback
  document, the code scan and the privacy scan reply without guidelines.
\<close>

theorem scan_reports_and_guidelines_witness:
  "runGreenlight (exec_printing crash_text) = Inr (printed crash_text) \<and>
   guidelinesCache initial_cache = None \<and>
   sample_url = Some ''https://example.com/build.ipa'' \<and>
   ends_with_ipa ''https://example.com/build.ipa'' \<and>
   truthy sample_project \<and>
   (\<exists>st'. upload_handler sample_parse initial_cache (Some sample_file)
        (exec_printing crash_text) 6000 6001 6011 timeout_outcome =
      (Status200 \<lparr>timestamp = 6000, fileName = originalname sample_file,
                  fileSize = filesize sample_file,
                  results = parse_scan_output sample_parse (printed crash_text),
                  report_guidelines = Some (fallback_document 6011)\<rparr>, st') \<and>
      url_handler sample_parse initial_cache sample_url True (Inr 45678901)
        (exec_printing crash_text) 6000 6001 6011 timeout_outcome =
      (Some (Status200 \<lparr>ur_timestamp = 6000, ur_sourceUrl = ''https://example.com/build.ipa'',
                        ur_fileSize = 45678901,
                        ur_results = parse_scan_output sample_parse (printed crash_text),
                        ur_guidelines = Some (fallback_document 6011)\<rparr>), st') \<and>
      preflight_handler sample_parse initial_cache sample_project
        (exec_printing crash_text) 5999 6000 6001 6011 timeout_outcome =
      (Status200 \<lparr>pr_scanId = 5999, pr_timestamp = 6000,
                  pr_projectPath = or_default sample_project [], pr_scanType = None,
                  pr_results = parse_scan_output sample_parse (printed crash_text),
                  pr_guidelines = Some (fallback_document 6011)\<rparr>, st')) \<and>
   privacy_handler sample_parse sample_project (exec_printing crash_text) 5999 6000 =
      Status200 \<lparr>pr_scanId = 5999, pr_timestamp = 6000,
                 pr_projectPath = or_default sample_project [], pr_scanType = Some ''privacy'',
                 pr_results = parse_scan_output sample_parse (printed crash_text),
                 pr_guidelines = None\<rparr> \<and>
   error (fallback_document 6011) = Some ''Failed to fetch live guidelines, using fallback''"
proof -
  have r: "runGreenlight (exec_printing crash_text) = Inr (printed crash_text)"
    by (rule runGreenlight_printing [OF crash_text_nonempty])
  have c: "guidelinesCache initial_cache = None"
    by (simp add: initial_cache_def)
  have t: "\<exists>msg. timeout_outcome = Threw msg"
    by (simp add: timeout_outcome_def)
  have e: "ends_with_ipa ''https://example.com/build.ipa''"
    by (simp add: ends_with_ipa_def)
  have n: "''https://example.com/build.ipa'' \<noteq> []"
    by simp
  have p: "truthy sample_project"
    by (simp add: truthy_def sample_project_def)
  from scan_reports_and_guidelines [OF r, where st = initial_cache and now = 6001
      and tf = 6011 and outcome = timeout_outcome and parse = sample_parse
      and f = sample_file and tstamp = 6000 and u = "''https://example.com/build.ipa''"
      and sz = 45678901 and projectPath = sample_project and tid = 5999]
  obtain g st' where
    up: "upload_handler sample_parse initial_cache (Some sample_file)
        (exec_printing crash_text) 6000 6001 6011 timeout_outcome =
      (Status200 \<lparr>timestamp = 6000, fileName = originalname sample_file,
                  fileSize = filesize sample_file,
                  results = parse_scan_output sample_parse (printed crash_text),
                  report_guidelines = Some g\<rparr>, st')"
    and ur: "''https://example.com/build.ipa'' \<noteq> [] \<and>
        ends_with_ipa ''https://example.com/build.ipa'' \<longrightarrow>
      url_handler sample_parse initial_cache (Some ''https://example.com/build.ipa'') True
        (Inr 45678901) (exec_printing crash_text) 6000 6001 6011 timeout_outcome =
      (Some (Status200 \<lparr>ur_timestamp = 6000, ur_sourceUrl = ''https://example.com/build.ipa'',
                        ur_fileSize = 45678901,
                        ur_results = parse_scan_output sample_parse (printed crash_text),
                        ur_guidelines = Some g\<rparr>), st')"
    and pr: "truthy sample_project \<longrightarrow>
      preflight_handler sample_parse initial_cache sample_project
        (exec_printing crash_text) 5999 6000 6001 6011 timeout_outcome =
      (Status200 \<lparr>pr_scanId = 5999, pr_timestamp = 6000,
                  pr_projectPath = or_default sample_project [], pr_scanType = None,
                  pr_results = parse_scan_output sample_parse (printed crash_text),
                  pr_guidelines = Some g\<rparr>, st') \<and>
      code_handler sample_parse sample_project (exec_printing crash_text) 5999 6000 =
      Status200 \<lparr>pr_scanId = 5999, pr_timestamp = 6000,
                 pr_projectPath = or_default sample_project [], pr_scanType = Some ''code'',
                 pr_results = parse_scan_output sample_parse (printed crash_text),
                 pr_guidelines = None\<rparr> \<and>
      privacy_handler sample_parse sample_project (exec_printing crash_text) 5999 6000 =
      Status200 \<lparr>pr_scanId = 5999, pr_timestamp = 6000,
                 pr_projectPath = or_default sample_project [], pr_scanType = Some ''privacy'',
                 pr_results = parse_scan_output sample_parse (printed crash_text),
                 pr_guidelines = None\<rparr>"
    and fb: "guidelinesCache initial_cache = None \<and> (\<exists>msg. timeout_outcome = Threw msg) \<longrightarrow>
        g = fallback_document 6011 \<and> sections g = fallbackGuidelines \<and>
        error g = Some ''Failed to fetch live guidelines, using fallback''"
    by (elim exE conjE) (rule that)
  from fb c t have g: "g = fallback_document 6011"
    and er: "error g = Some ''Failed to fetch live guidelines, using fallback''"
    by blast+
  from ur n e have ur': "url_handler sample_parse initial_cache sample_url True
        (Inr 45678901) (exec_printing crash_text) 6000 6001 6011 timeout_outcome =
      (Some (Status200 \<lparr>ur_timestamp = 6000, ur_sourceUrl = ''https://example.com/build.ipa'',
                        ur_fileSize = 45678901,
                        ur_results = parse_scan_output sample_parse (printed crash_text),
                        ur_guidelines = Some g\<rparr>), st')"
    unfolding sample_url_def by (rule mp [OF _ conjI])
  note pr' = pr [rule_format, OF p]
  show ?thesis
  proof (intro conjI exI)
    show "sample_url = Some ''https://example.com/build.ipa''"
      by (simp add: sample_url_def)
  qed (rule r c e p up [unfolded g] ur' [unfolded g] pr' [THEN conjunct1, unfolded g]
        pr' [THEN conjunct2, THEN conjunct2] er [unfolded g])+
qed


subsection \<open>Enrichment leaves the findings in place\<close>

lemma clear_fix_enhanced: "clear_fix (enhanced_finding trim ai k f) = clear_fix f"
  by (simp add: clear_fix_def enhanced_finding_def split: sum.split)

lemma present_Some: "present (map Some xs) = xs"
  by (induction xs) simp_all

text \<open>
  The loop either meets a \<open>null\<close> element and throws, or returns every finding enhanced
  in place.
\<close>

lemma enhance_loop_eq:
  "enhance_loop trim ai k fs enhanced =
     (if list_all (\<lambda>x. x \<noteq> None) fs
      then Inr (enhanced @ map2 (\<lambda>j. map_option (enhanced_finding trim ai j)) [k..<k + length fs] fs)
      else Inl ''Cannot read properties of null (reading 'title')'')"
proof (induction fs arbitrary: k enhanced)
  case Nil
  show ?case by simp
next
  case (Cons x fs)
  show ?case
  proof (cases x)
    case None
    then show ?thesis by simp
  next
    case (Some f)
    have u: "[k..<k + length (x # fs)] = k # [Suc k..<Suc k + length fs]"
      by (simp add: upt_conv_Cons del: upt_Suc)
    show ?thesis
    proof (cases "list_all (\<lambda>x. x \<noteq> None) fs")
      case True
      have "enhance_loop trim ai k (x # fs) enhanced =
          enhance_loop trim ai (Suc k) fs (enhanced @ [Some (enhanced_finding trim ai k f)])"
        by (simp add: Some enhanced_finding_def)
      also have "\<dots> = Inr ((enhanced @ [Some (enhanced_finding trim ai k f)]) @
          map2 (\<lambda>j. map_option (enhanced_finding trim ai j)) [Suc k..<Suc k + length fs] fs)"
        using True by (simp add: Cons.IH)
      also have "\<dots> = Inr (enhanced @
          map2 (\<lambda>j. map_option (enhanced_finding trim ai j)) (k # [Suc k..<Suc k + length fs]) (x # fs))"
        by (simp add: Some)
      finally show ?thesis
        using True by (simp only: u) (simp add: Some)
    next
      case False
      have "enhance_loop trim ai k (x # fs) enhanced =
          enhance_loop trim ai (Suc k) fs (enhanced @ [Some (enhanced_finding trim ai k f)])"
        by (simp add: Some enhanced_finding_def)
      then show ?thesis
        using False by (simp add: Cons.IH Some)
    qed
  qed
qed

lemma map2_enhanced_clear:
  "length ks = length fs \<Longrightarrow>
   map (map_option clear_fix) (map2 (\<lambda>j. map_option (enhanced_finding trim ai j)) ks fs) =
     map (map_option clear_fix) fs"
proof (induction ks fs rule: list_induct2)
  case Nil
  show ?case by simp
next
  case (Cons k ks x fs)
  have "map_option clear_fix (map_option (enhanced_finding trim ai k) x) = map_option clear_fix x"
    by (cases x) (simp_all add: clear_fix_enhanced)
  with Cons.IH show ?case by simp
qed

lemma generateFixSuggestions_eq:
  "generateFixSuggestions trim apiKey ai fs =
     Inr (if truthy apiKey \<and> list_all (\<lambda>x. x \<noteq> None) fs
          then map2 (\<lambda>j. map_option (enhanced_finding trim ai j)) [0..<length fs] fs
          else fs)"
  by (simp add: generateFixSuggestions_def fix_try_def enhance_loop_eq)

lemma generateFixSuggestions_frame:
  "\<exists>out. generateFixSuggestions trim apiKey ai fs = Inr out \<and> length out = length fs \<and>
     map (map_option clear_fix) out = map (map_option clear_fix) fs"
  using map2_enhanced_clear [of "[0..<length fs]" fs trim ai]
  by (simp add: generateFixSuggestions_eq)

lemma present_clear_Some:
  assumes "map (map_option clear_fix) out = map (map_option clear_fix) (map Some fs)"
  shows "map clear_fix (present out) = map clear_fix fs"
  using assms
proof (induction fs arbitrary: out)
  case Nil
  then show ?case by simp
next
  case (Cons f fs)
  then obtain x rest where out: "out = x # rest"
    by (cases out) auto
  with Cons.prems obtain g where x: "x = Some g" and g: "clear_fix g = clear_fix f"
    by (cases x) auto
  from Cons.prems out have "map (map_option clear_fix) rest = map (map_option clear_fix) (map Some fs)"
    by simp
  then have "map clear_fix (present rest) = map clear_fix fs"
    by (rule Cons.IH)
  with out x g show ?case by simp
qed




text \<open>Step 3 resolves and keeps every finding in place, whatever the calls do.\<close>

lemma enrich_findings_frame:
  "\<exists>sr1. enrich_findings trim apiKey ai a sr = Inr sr1 \<and>
     length (findings_of sr1) = length (findings_of sr) \<and>
     map clear_fix (findings_of sr1) = map clear_fix (findings_of sr) \<and>
     (findings sr1 = None) = (findings sr = None) \<and>
     sr1\<lparr>findings := None\<rparr> = sr\<lparr>findings := None\<rparr>"
proof (cases "findings sr")
  case None
  then show ?thesis
    by (simp add: enrich_findings_def findings_of_def)
next
  case (Some fs0)
  obtain out where out: "generateFixSuggestions trim apiKey ai (map Some fs0) = Inr out"
    and clr: "map (map_option clear_fix) out = map (map_option clear_fix) (map Some fs0)"
    using generateFixSuggestions_frame by blast
  have c: "map clear_fix (present out) = map clear_fix fs0"
    using clr by (rule present_clear_Some)
  then have "length (map clear_fix (present out)) = length (map clear_fix fs0)"
    by simp
  then have l: "length (present out) = length fs0"
    by simp
  show ?thesis
    by (cases "fs0 \<noteq> [] \<and> \<not> truthy (reply_error a)")
       (simp_all add: enrich_findings_def Some findings_of_def out c l)
qed


lemma odd_reply_answers_500:
  "enhanced_reply (enrich ascii_trim sample_key (Unreadable []) odd_reply
       sample_parse_analysis 7000 sample_ai line_measure mixed_findings) =
     Status500 ''Enhanced scan failed''
       (Some ''scanResults.aiAnalysis.recommendations.forEach is not a function'')"
proof -
  have k: "getAnthropicKey sample_key (Unreadable []) = sample_key"
    by (simp add: getAnthropicKey_def truthy_def sample_key_def)
  have m: "jsonMatch odd_object = Some odd_object"
    by (simp add: jsonMatch_def odd_object_def)
  have p: "sample_parse_analysis odd_object = Inr odd_analysis"
    by (simp add: sample_parse_analysis_def) (simp add: good_object_def odd_object_def)
  have a: "analyzeWithAI sample_key odd_reply sample_parse_analysis 7000 =
      Inr (odd_analysis\<lparr>reply_model := Some ''claude-sonnet-4'', reply_analyzedAt := Some 7000\<rparr>)"
    by (simp add: analyzeWithAI_def analyze_try_def odd_reply_def m p truthy_def sample_key_def)
  have r: "analysis_for_report
      (odd_analysis\<lparr>reply_model := Some ''claude-sonnet-4'', reply_analyzedAt := Some 7000\<rparr>) =
      Inl ''scanResults.aiAnalysis.recommendations.forEach is not a function''"
    by (simp add: analysis_for_report_def odd_analysis_def)
  obtain sr1 where "enrich_findings ascii_trim sample_key sample_ai
      (odd_analysis\<lparr>reply_model := Some ''claude-sonnet-4'', reply_analyzedAt := Some 7000\<rparr>)
      mixed_findings = Inr sr1"
    using enrich_findings_frame by blast
  then show ?thesis
    by (simp add: enhanced_reply_def enrich_def k a r)
qed









subsection \<open>The report keeps the order of the document\<close>

lemma page_blocks_append: "page_blocks (ps @ qs) = page_blocks ps @ page_blocks qs"
  by (simp add: page_blocks_def)

lemma blocks_new_page_if: "blocks_so_far (new_page_if limit lay) = blocks_so_far lay"
  by (cases lay) (simp add: page_blocks_def)

lemma blocks_put: "blocks_so_far (put b h lay) = blocks_so_far lay @ [b]"
  by (cases lay) (simp add: page_blocks_def)

lemma blocks_findings_loop:
  "blocks_so_far (findings_loop hos k fs lay) =
     blocks_so_far lay @ map2 finding_block [k..<k + length fs] fs"
proof (induction fs arbitrary: k lay)
  case Nil
  show ?case by simp
next
  case (Cons f fs)
  have u: "[k..<k + length (f # fs)] = k # [Suc k..<Suc k + length fs]"
    by (simp add: upt_conv_Cons del: upt_Suc)
  have "blocks_so_far (findings_loop hos k (f # fs) lay) =
      (blocks_so_far lay @ [finding_block k f]) @
        map2 finding_block [Suc k..<Suc k + length fs] fs"
    by (simp add: Cons.IH blocks_put blocks_new_page_if)
  also have "\<dots> = blocks_so_far lay @ map2 finding_block (k # [Suc k..<Suc k + length fs]) (f # fs)"
    by simp
  finally show ?case
    by (simp only: u)
qed

lemma blocks_recommendations_loop:
  "blocks_so_far (recommendations_loop hos k rs lay) =
     blocks_so_far lay @ map2 recommendation_block [k..<k + length rs] rs"
proof (induction rs arbitrary: k lay)
  case Nil
  show ?case by simp
next
  case (Cons r rs)
  have u: "[k..<k + length (r # rs)] = k # [Suc k..<Suc k + length rs]"
    by (simp add: upt_conv_Cons del: upt_Suc)
  have "blocks_so_far (recommendations_loop hos k (r # rs) lay) =
      (blocks_so_far lay @ [recommendation_block k r]) @
        map2 recommendation_block [Suc k..<Suc k + length rs] rs"
    by (simp add: Cons.IH blocks_put blocks_new_page_if recommendation_block_def)
  also have "\<dots> = blocks_so_far lay @
      map2 recommendation_block (k # [Suc k..<Suc k + length rs]) (r # rs)"
    by simp
  finally show ?case
    by (simp only: u)
qed

lemma blocks_first_page:
  "blocks_so_far (first_page sr) = [HeaderBlock, summary_block sr, FindingsHeading]"
  by (simp add: first_page_def page_blocks_def)

lemma blocks_recommendations_part:
  "blocks_so_far (recommendations_part hos sr lay) =
     blocks_so_far lay @
       (case recommendations_of sr of
          None \<Rightarrow> []
        | Some recs \<Rightarrow> RecommendationsHeading # map2 recommendation_block [0..<length recs] recs)"
  by (simp add: recommendations_part_def blocks_recommendations_loop blocks_put
        blocks_new_page_if split: option.split)

lemma blocks_footer_part: "page_blocks (footer_part lay) = blocks_so_far lay @ [FooterBlock]"
  by (cases lay) (simp add: page_blocks_def)

lemma page_blocks_generate:
  "page_blocks (generateCompliancePDF hos sr) = document_blocks sr"
  by (simp add: generateCompliancePDF_def blocks_footer_part blocks_recommendations_part
        blocks_findings_loop blocks_first_page document_blocks_def)

lemma finding_severities_append:
  "finding_severities (bs @ cs) = finding_severities bs @ finding_severities cs"
  by (induction bs rule: finding_severities.induct) simp_all

lemma finding_severities_findings:
  "length ks = length fs \<Longrightarrow> finding_severities (map2 finding_block ks fs) = map severity fs"
  by (induction ks fs rule: list_induct2) (simp_all add: finding_block_def)

lemma finding_severities_recommendation:
  "finding_severities (recommendation_block k r # bs) = finding_severities bs"
  by (simp add: recommendation_block_def)

lemma finding_severities_recommendations:
  "finding_severities (map2 recommendation_block ks rs) = []"
proof (induction rs arbitrary: ks)
  case Nil
  show ?case by simp
next
  case (Cons r rs)
  show ?case by (cases ks) (simp_all add: Cons.IH finding_severities_recommendation)
qed

lemma finding_severities_document:
  "finding_severities (document_blocks sr) = map severity (findings_of sr)"
  by (simp add: document_blocks_def finding_severities_append finding_severities_findings
        finding_severities_recommendations summary_block_def split: option.split)

text \<open>
  C9. Rendering keeps the order: the blocks of all pages, in page order, are the blocks
  of the document in document order, each drawn once; the finding blocks are those of
  \<open>scanResults.findings\<close> in the order of that list, so their severities come in the
  order given, unsorted.
\<close>

theorem rendering_preserves_order:
  "page_blocks (generateCompliancePDF hos sr) = document_blocks sr \<and>
   document_blocks sr =
     [HeaderBlock, summary_block sr, FindingsHeading]
     @ map2 finding_block [0..<length (findings_of sr)] (findings_of sr)
     @ (case recommendations_of sr of
          None \<Rightarrow> []
        | Some recs \<Rightarrow> RecommendationsHeading # map2 recommendation_block [0..<length recs] recs)
     @ [FooterBlock] \<and>
   finding_severities (page_blocks (generateCompliancePDF hos sr)) = map severity (findings_of sr)"
  by (simp only: page_blocks_generate finding_severities_document)
     (simp add: document_blocks_def)

text \<open>An instance of C9: an INFO finding before a CRITICAL one stays before it.\<close>

theorem rendering_preserves_order_witness:
  "finding_severities (page_blocks (generateCompliancePDF line_measure mixed_findings)) =
     [''INFO'', ''CRITICAL'', ''WARNING'']"
proof -
  have "map severity (findings_of mixed_findings) = [''INFO'', ''CRITICAL'', ''WARNING'']"
    by (simp add: mixed_findings_def findings_of_def finding_X_def finding_Y_def finding_Z_def)
  with rendering_preserves_order [of line_measure mixed_findings, THEN conjunct2, THEN conjunct2]
  show ?thesis by simp
qed

subsection \<open>Page breaks\<close>

lemma contiguous_append:
  "contiguous t (p @ [b]) y = (contiguous t p (py b) \<and> y = py b + ph b)"
  by (induction p arbitrary: t) auto

lemma contiguous_sum: "contiguous t p y \<Longrightarrow> sum_list (map ph p) = y - t"
  by (induction p arbitrary: t) auto

lemma contiguous_butlast:
  "contiguous t p y \<Longrightarrow> p \<noteq> [] \<Longrightarrow> sum_list (map ph (butlast p)) = py (last p) - t"
proof (induction p rule: rev_induct)
  case Nil
  then show ?case by simp
next
  case (snoc b p)
  then have "contiguous t p (py b)"
    by (simp add: contiguous_append)
  then show ?case
    by (simp add: contiguous_sum)
qed

lemma contiguous_last:
  "contiguous t p y \<Longrightarrow> p \<noteq> [] \<Longrightarrow> py (last p) + ph (last p) = y"
  by (induction p rule: rev_induct) (simp_all add: contiguous_append)

lemma closed_page_within:
  assumes "contiguous 50 p y" and "p \<noteq> []" and "list_all (\<lambda>b. py b \<le> 700) p"
  shows "page_within p"
proof -
  have "py (last p) \<le> 700"
    using assms(2,3) by (simp add: list_all_iff)
  then show ?thesis
    using assms by (simp add: page_within_def contiguous_butlast)
qed

lemma layout_ok_place:
  assumes "layout_ok lay" and "650 \<le> limit" and "limit \<le> 700"
  shows "layout_ok (put b h (new_page_if limit lay))"
proof -
  obtain pages cur y where lay: "lay = (pages, cur, y)"
    by (cases lay)
  show ?thesis
  proof (cases "y > limit")
    case True
    from assms(1) have c: "contiguous 50 cur y" "cur \<noteq> []" "list_all (\<lambda>b. py b \<le> 700) cur"
      by (simp_all add: lay)
    then have "page_within cur"
      by (rule closed_page_within)
    moreover have "page_filled cur"
      using c True assms(2) by (simp add: page_filled_def contiguous_last)
    ultimately show ?thesis
      using assms(1) True by (simp add: lay)
  next
    case False
    then show ?thesis
      using assms by (simp add: lay contiguous_append)
  qed
qed

lemma layout_ok_findings_loop:
  "layout_ok lay \<Longrightarrow> layout_ok (findings_loop hos k fs lay)"
  by (induction fs arbitrary: k lay) (simp_all add: layout_ok_place)

lemma layout_ok_recommendations_loop:
  "layout_ok lay \<Longrightarrow> layout_ok (recommendations_loop hos k rs lay)"
  by (induction rs arbitrary: k lay) (simp_all add: layout_ok_place)

lemma layout_ok_first_page: "layout_ok (first_page sr)"
  by (simp add: first_page_def)

lemma layout_ok_recommendations_part:
  "layout_ok lay \<Longrightarrow> layout_ok (recommendations_part hos sr lay)"
  by (simp add: recommendations_part_def layout_ok_recommendations_loop layout_ok_place
        split: option.split)

lemma footer_part_filled:
  "layout_ok lay \<Longrightarrow> list_all page_filled (butlast (butlast (footer_part lay)))"
  by (cases lay) (simp add: butlast_append)

lemma footer_part_within:
  assumes "layout_ok lay"
  shows "list_all page_within (footer_part lay)"
proof -
  obtain pages cur y where lay: "lay = (pages, cur, y)"
    by (cases lay)
  from assms have c: "contiguous 50 cur y" "cur \<noteq> []" "list_all (\<lambda>b. py b \<le> 700) cur"
    by (simp_all add: lay)
  then have "page_within cur"
    by (rule closed_page_within)
  moreover have "page_within [\<lparr>pblock = FooterBlock, py = 350, ph = 0\<rparr>]"
    by (simp add: page_within_def)
  ultimately show ?thesis
    using assms by (simp add: lay)
qed

lemma pages_fit_heights:
  "pages_fit L pages =
     list_all (\<lambda>hs. sum_list hs \<le> L \<or> list_ex (\<lambda>h. L < h) hs) (map (map ph) pages)"
  by (simp add: pages_fit_def fits_def page_height_def list_all_iff list_ex_iff)

text \<open>
  C1, as stated, fails. Five findings of height 300 each: the first page ends with a
  finding drawn at cursor 645, the second holds three findings drawn at 50, 350 and
  650. Its blocks sum to 900, above any body limit up to the page height, while no
  block is higher than 300.
\<close>

theorem page_sum_exceeds_limit:
  "map (map (\<lambda>b. (py b, ph b))) (generateCompliancePDF line_measure five_findings) =
     [[(50, 125), (175, 140), (315, 30), (345, 300), (645, 300)],
      [(50, 300), (350, 300), (650, 300)],
      [(350, 0)]] \<and>
   \<not> pages_fit 650 (generateCompliancePDF line_measure five_findings) \<and>
   \<not> pages_fit 700 (generateCompliancePDF line_measure five_findings) \<and>
   \<not> pages_fit 742 (generateCompliancePDF line_measure five_findings)"
proof -
  have h: "finding_height line_measure long_finding = 300"
    by (simp add: finding_height_def line_measure_def long_finding_def or_default_def truthy_def)
  have p: "map (map (\<lambda>b. (py b, ph b))) (generateCompliancePDF line_measure five_findings) =
     [[(50, 125), (175, 140), (315, 30), (345, 300), (645, 300)],
      [(50, 300), (350, 300), (650, 300)],
      [(350, 0)]]"
    by (simp add: generateCompliancePDF_def five_findings_def empty_results_def findings_of_def
          first_page_def recommendations_part_def recommendations_of_def risk_of_def h
          numeral_eq_Suc)
  have m: "map (map ph) (generateCompliancePDF line_measure five_findings) =
      [[125, 140, 30, 300, 300], [300, 300, 300], [0]]"
    using arg_cong [OF p, of "map (map snd)"]
    by (simp add: comp_def)
  show ?thesis
    by (simp add: p pages_fit_heights m)
qed

text \<open>
  C1, amended. Before each finding the code compares the cursor alone with 700 (650
  before the recommendations heading), not the cursor plus the height of the block; past
  it, it opens a new page and resets the cursor to 50. So on every page each block starts
  at a cursor of at most 700, and the blocks before the last block of the page sum to at
  most 650; the last block is drawn whatever its height. A page followed by another
  page of the report body was closed by such a test: its last block ends past 650.
\<close>

theorem blocks_start_within_threshold:
  "list_all page_within (generateCompliancePDF hos sr) \<and>
   list_all page_filled (butlast (butlast (generateCompliancePDF hos sr)))"
  by (simp add: generateCompliancePDF_def footer_part_within footer_part_filled
        layout_ok_recommendations_part layout_ok_findings_loop layout_ok_first_page)

text \<open>An instance of C1: the cursors at which the blocks of the five findings start.\<close>

theorem blocks_start_within_threshold_witness:
  "list_all page_within (generateCompliancePDF line_measure five_findings) \<and>
   list_all page_filled (butlast (butlast (generateCompliancePDF line_measure five_findings))) \<and>
   map (map py) (generateCompliancePDF line_measure five_findings) =
     [[50, 175, 315, 345, 645], [50, 350, 650], [350]]"
proof -
  have h: "finding_height line_measure long_finding = 300"
    by (simp add: finding_height_def line_measure_def long_finding_def or_default_def truthy_def)
  have "map (map py) (generateCompliancePDF line_measure five_findings) =
     [[50, 175, 315, 345, 645], [50, 350, 650], [350]]"
    by (simp add: generateCompliancePDF_def five_findings_def empty_results_def findings_of_def
          first_page_def recommendations_part_def recommendations_of_def risk_of_def h
          numeral_eq_Suc)
  with blocks_start_within_threshold [of line_measure five_findings]
  show ?thesis by simp
qed

subsection \<open>Timestamps of the cache fills\<close>

lemma get_resume_fetched:
  "get_resume c now (fetchAppleGuidelines tf outcome) =
     (Inr (fetched_document tf outcome),
      c\<lparr>guidelinesCache := Some (fetched_document tf outcome), cacheTimestamp := Some now\<rparr>)"
  by (simp add: get_resume_def fetchAppleGuidelines_eq)

text \<open>A call with no other request in flight is \<open>getCachedGuidelines\<close> run at once.\<close>

lemma get_one_at_a_time:
  assumes "pending s = []"
  shows "step (step s (GetCalled now)) (GetResumed 0 tf outcome) =
     s\<lparr>cache := snd (getCachedGuidelines (cache s) now tf outcome)\<rparr>"
proof (cases "get_fresh_reply (cache s) now")
  case None
  then show ?thesis
    using assms by (simp add: getCachedGuidelines_def)
next
  case (Some reply)
  then show ?thesis
    using assms by (simp add: getCachedGuidelines_def)
qed

lemma fills_append: "fills s (es @ fs) = fills s es @ fills (foldl step s es) fs"
  by (induction es arbitrary: s) simp_all

lemma fills_get:
  assumes "pending s = []"
  shows "fills s (events_of (Get now tf outcome)) =
     (if get_fresh_reply (cache s) now = None then [now] else [])"
  using assms by (cases "get_fresh_reply (cache s) now") (simp_all add: get_resume_fetched)

lemma fills_refresh: "fills s (events_of (Refresh tf tstore outcome)) = [tstore]"
  by (simp add: refresh_handler_eq)

lemma pending_after_request:
  "pending s = [] \<Longrightarrow> pending (foldl step s (events_of r)) = []"
  by (cases r) (simp_all split: option.split)

lemma fills_request_subset:
  assumes "pending s = []"
  shows "set (fills s (events_of r)) \<subseteq> set (clock_readings (events_of r))"
proof (cases r)
  case (Get now tf outcome)
  have "set (fills s (events_of (Get now tf outcome))) \<subseteq> {now}"
    unfolding fills_get [OF assms] by auto
  moreover have "now \<in> set (clock_readings (events_of (Get now tf outcome)))"
    by (simp add: clock_readings_def)
  ultimately show ?thesis
    unfolding Get by blast
next
  case (Refresh tf tstore outcome)
  have "fills s (events_of (Refresh tf tstore outcome)) = [tstore]"
    by (rule fills_refresh)
  moreover have "tstore \<in> set (clock_readings (events_of (Refresh tf tstore outcome)))"
    by (simp add: clock_readings_def)
  ultimately show ?thesis
    unfolding Refresh by simp
qed

lemma fills_request_sorted:
  assumes "pending s = []"
  shows "sorted (fills s (events_of r))"
proof (cases r)
  case (Get now tf outcome)
  show ?thesis
    unfolding Get fills_get [OF assms] by simp
next
  case (Refresh tf tstore outcome)
  show ?thesis
    unfolding Refresh fills_refresh by simp
qed

lemma clock_readings_append:
  "clock_readings (es @ fs) = clock_readings es @ clock_readings fs"
  by (simp add: clock_readings_def)

lemma fills_one_at_a_time:
  "pending s = [] \<Longrightarrow> sorted (clock_readings (one_at_a_time reqs)) \<Longrightarrow>
   sorted (fills s (one_at_a_time reqs)) \<and>
   set (fills s (one_at_a_time reqs)) \<subseteq> set (clock_readings (one_at_a_time reqs))"
proof (induction reqs arbitrary: s)
  case Nil
  show ?case by (simp add: one_at_a_time_def)
next
  case (Cons r rs)
  have split: "one_at_a_time (r # rs) = events_of r @ one_at_a_time rs"
    by (simp add: one_at_a_time_def)
  let ?s' = "foldl step s (events_of r)"
  from Cons.prems(2) have so: "sorted (clock_readings (events_of r) @ clock_readings (one_at_a_time rs))"
    by (simp only: split clock_readings_append)
  then have rest: "sorted (clock_readings (one_at_a_time rs))"
    and le: "\<forall>a\<in>set (clock_readings (events_of r)). \<forall>b\<in>set (clock_readings (one_at_a_time rs)). a \<le> b"
    by (simp_all add: sorted_append)
  have p': "pending ?s' = []"
    using Cons.prems(1) by (rule pending_after_request)
  from Cons.IH [OF p' rest]
  have ih1: "sorted (fills ?s' (one_at_a_time rs))"
    and ih2: "set (fills ?s' (one_at_a_time rs)) \<subseteq> set (clock_readings (one_at_a_time rs))"
    by simp_all
  have h1: "sorted (fills s (events_of r))"
    using Cons.prems(1) by (rule fills_request_sorted)
  have h2: "set (fills s (events_of r)) \<subseteq> set (clock_readings (events_of r))"
    using Cons.prems(1) by (rule fills_request_subset)
  have "sorted (fills s (events_of r) @ fills ?s' (one_at_a_time rs))"
    using h1 h2 ih1 ih2 le by (auto simp: sorted_append)
  moreover have "set (fills s (events_of r) @ fills ?s' (one_at_a_time rs))
      \<subseteq> set (clock_readings (events_of r) @ clock_readings (one_at_a_time rs))"
    using h2 ih2 by auto
  ultimately show ?case
    by (simp only: split fills_append clock_readings_append)
qed

text \<open>
  C8, as stated, fails. With a clock that only moves forward, two overlapping calls
  that both miss the cache fill it in the order in which their fetches settle, each
  with the clock reading taken when the call started: the timestamps stored are 200,
  then 100.
\<close>

theorem overlapping_fills_regress:
  "sorted (clock_readings overlapping_run) \<and>
   fills initial_server overlapping_run = [200, 100] \<and>
   \<not> sorted (fills initial_server overlapping_run)"
proof -
  have f: "fills initial_server overlapping_run = [200, 100]"
    by (simp add: overlapping_run_def initial_server_def get_fresh_reply_initial
          get_resume_fetched)
  show ?thesis
    by (simp add: f) (simp add: overlapping_run_def clock_readings_def)
qed

text \<open>
  C8, amended. When the requests are served one at a time (no request starts while a
  call of \<open>getCachedGuidelines\<close> awaits its fetch) and the clock never moves back, the
  timestamps stored by the successive fills, by misses and by refreshes in any order,
  never regress; each is one of the clock readings of the run.
\<close>

theorem sequential_fills_never_regress:
  assumes "sorted (clock_readings (one_at_a_time reqs))"
  shows "sorted (fills initial_server (one_at_a_time reqs)) \<and>
     set (fills initial_server (one_at_a_time reqs)) \<subseteq> set (clock_readings (one_at_a_time reqs))"
proof -
  have "pending initial_server = []"
    by (simp add: initial_server_def)
  then show ?thesis
    using assms by (rule fills_one_at_a_time)
qed

text \<open>
  An instance of C8: a miss, a refresh and a miss after expiry, one after the other.
\<close>

theorem sequential_fills_never_regress_witness:
  "sorted (clock_readings (one_at_a_time sequential_run)) \<and>
   fills initial_server (one_at_a_time sequential_run) = [100, 210, 210 + CACHE_DURATION] \<and>
   sorted (fills initial_server (one_at_a_time sequential_run))"
proof -
  have c: "sorted (clock_readings (one_at_a_time sequential_run))"
    by (simp add: sequential_run_def one_at_a_time_def clock_readings_def CACHE_DURATION_def)
  have f: "fills initial_server (one_at_a_time sequential_run) = [100, 210, 210 + CACHE_DURATION]"
    by (simp add: sequential_run_def one_at_a_time_def initial_server_def initial_cache_def
          get_resume_fetched refresh_handler_eq get_fresh_reply_def)
  from sequential_fills_never_regress [OF c] c f
  show ?thesis by simp
qed

end
